theory Spec2Isabelle
  imports Complex_Main "HOL-Library.Char_ord" "HOL-Library.List_Lexorder"
    "HOL-Library.Product_Lexorder"
begin

section \<open>Values of the host language\<close>

text \<open>
  The collection engine stores schemaless documents and compares their property values
  with its own comparator.  The values are the language's: \<open>undefined\<close>, \<open>null\<close>,
  booleans, numbers, strings and plain objects.  Numbers are IEEE doubles; every finite
  double is a rational and comparison of doubles is exact, so a number is modelled as
  \<open>NaN\<close>, an infinity or a rational (the two zeros are one value: \<open>===\<close>, \<open><\<close> and
  \<open>!\<close> do not tell them apart).  Strings are lists of characters compared
  lexicographically by character code.  A plain object is the list of its own
  properties in insertion order.  \<open>Builtin n\<close> is a function or object built into the
  runtime; a plain object inherits such members from \<open>Object.prototype\<close>.  Arrays, dates
  and user functions are not property values in this development.
\<close>

datatype jsnum = NaN | NegInf | Fin rat | PosInf

datatype jsval =
    Undefined
  | Null
  | Bool bool
  | Num jsnum
  | Str string
  | Obj "(string \<times> jsval) list"
  | Builtin string

text \<open>
  Four conversions belong to the language runtime and not to the repository: the reading
  of a string as a number (\<open>Number(s)\<close>), the printing of a number and of a built-in
  (\<open>toString\<close>), and \<open>parseInt(s, 10)\<close>.  They are parameters of every definition that
  reaches them, so each theorem below holds for whatever the runtime computes.
\<close>

record builtins =
  Number_of_string :: "string \<Rightarrow> jsnum"
  string_of_Number :: "jsnum \<Rightarrow> string"
  string_of_Builtin :: "string \<Rightarrow> string"
  parseInt_of_string :: "string \<Rightarrow> jsnum"

text \<open>\<open>a < b\<close> and \<open>a === b\<close> on numbers: every comparison with \<open>NaN\<close> is false.\<close>

fun num_lt :: "jsnum \<Rightarrow> jsnum \<Rightarrow> bool" where
  "num_lt NaN _ = False"
| "num_lt _ NaN = False"
| "num_lt NegInf NegInf = False"
| "num_lt NegInf _ = True"
| "num_lt (Fin a) (Fin b) = (a < b)"
| "num_lt (Fin _) PosInf = True"
| "num_lt (Fin _) NegInf = False"
| "num_lt PosInf _ = False"

definition num_eq :: "jsnum \<Rightarrow> jsnum \<Rightarrow> bool" where
  "num_eq a b = (a \<noteq> NaN \<and> a = b)"

text \<open>
  \<open>n + 1\<close> on numbers.  The sum of two doubles is the double nearest to the exact sum, a
  tie going to the even significand, and an infinity from \<open>2 ^ 1024\<close> on.  A double has
  53 significant bits: \<open>round_double x\<close> rounds \<open>x\<close> to a multiple of \<open>2 ^ (e - 52)\<close>,
  where \<open>2 ^ e\<close> is the greatest power of two up to \<open>\<bar>x\<bar>\<close> and \<open>e\<close> is at least \<open>- 1022\<close>;
  \<open>e\<close> is found from the numbers of bits of numerator and denominator.
  So \<open>n + 1\<close> is exact up to \<open>2 ^ 53\<close>, and \<open>2 ^ 53 + 1\<close> is \<open>2 ^ 53\<close> again.
\<close>

definition pow2 :: "int \<Rightarrow> rat" where
  "pow2 e = (if 0 \<le> e then 2 ^ nat e else 1 / 2 ^ nat (- e))"

definition round_half_even :: "rat \<Rightarrow> int" where
  "round_half_even x =
     (let f = \<lfloor>x\<rfloor>; d = x - of_int f
      in if d < 1 / 2 then f else if 1 / 2 < d then f + 1
         else if even f then f else f + 1)"

function bit_length :: "int \<Rightarrow> int" where
  "bit_length k = (if k \<le> 0 then 0 else bit_length (k div 2) + 1)"
  by pat_completeness auto
termination
  by (relation "measure nat") auto

declare bit_length.simps [simp del]

definition binary_exponent :: "rat \<Rightarrow> int" where
  "binary_exponent x =
     (let (p, q) = quotient_of \<bar>x\<bar>;
          e = bit_length p - bit_length q
      in if pow2 e \<le> \<bar>x\<bar> then e else e - 1)"

definition round_double :: "rat \<Rightarrow> jsnum" where
  "round_double x =
     (if x = 0 then Fin 0
      else
        let e = max (binary_exponent x) (- 1022);
            q = pow2 (e - 52);
            y = of_int (round_half_even (x / q)) * q
        in if pow2 1024 \<le> \<bar>y\<bar> then (if 0 < x then PosInf else NegInf) else Fin y)"

text \<open>An integer of at most 53 bits is a double, so a sum that is one is exact.\<close>

fun num_succ :: "jsnum \<Rightarrow> jsnum" where
  "num_succ (Fin r) =
     (if of_int \<lfloor>r\<rfloor> = r \<and> \<bar>r + 1\<bar> \<le> 9007199254740992 then Fin (r + 1)
      else round_double (r + 1))"
| "num_succ n = n"

text \<open>\<open>!v\<close>: the falsy values.\<close>

fun falsy :: "jsval \<Rightarrow> bool" where
  "falsy Undefined = True"
| "falsy Null = True"
| "falsy (Bool b) = (\<not> b)"
| "falsy (Num n) = (n = NaN \<or> n = Fin 0)"
| "falsy (Str s) = (s = [])"
| "falsy (Obj _) = False"
| "falsy (Builtin _) = False"

text \<open>
  \<open>Number(v)\<close>, \<open>String(v)\<close> (also the property key a value stands for) and the
  primitive an object turns into under \<open><\<close> and \<open>==\<close>.  An object is converted by its
  \<open>valueOf\<close> and \<open>toString\<close>.  A plain object that inherits both from \<open>Object.prototype\<close>
  turns into the string \<open>[object Object]\<close>, a built-in function into the text the
  runtime prints for it.  An object with an own property \<open>toString\<close> or \<open>valueOf\<close> is
  converted by whatever that property holds, and the conversion throws a \<open>TypeError\<close>
  when it holds nothing callable (as in \<open>{toString: 1}\<close>): the equations below do not
  describe the conversion of such an object.  \<open>convertible\<close> marks the values they do
  describe, and every statement below about the conversion or comparison of an arbitrary
  value assumes it.
\<close>

fun convertible :: "jsval \<Rightarrow> bool" where
  "convertible (Obj fs) = (''toString'' \<notin> fst ` set fs \<and> ''valueOf'' \<notin> fst ` set fs)"
| "convertible v = True"

fun ToNumber :: "builtins \<Rightarrow> jsval \<Rightarrow> jsnum" where
  "ToNumber rt Undefined = NaN"
| "ToNumber rt Null = Fin 0"
| "ToNumber rt (Bool b) = (if b then Fin 1 else Fin 0)"
| "ToNumber rt (Num n) = n"
| "ToNumber rt (Str s) = Number_of_string rt s"
| "ToNumber rt (Obj _) = NaN"
| "ToNumber rt (Builtin _) = NaN"

fun ToString :: "builtins \<Rightarrow> jsval \<Rightarrow> string" where
  "ToString rt Undefined = ''undefined''"
| "ToString rt Null = ''null''"
| "ToString rt (Bool b) = (if b then ''true'' else ''false'')"
| "ToString rt (Num n) = string_of_Number rt n"
| "ToString rt (Str s) = s"
| "ToString rt (Obj _) = ''[object Object]''"
| "ToString rt (Builtin n) = string_of_Builtin rt n"

fun ToPrimitive :: "builtins \<Rightarrow> jsval \<Rightarrow> jsval" where
  "ToPrimitive rt (Obj fs) = Str (ToString rt (Obj fs))"
| "ToPrimitive rt (Builtin n) = Str (ToString rt (Builtin n))"
| "ToPrimitive rt v = v"

text \<open>\<open>a < b\<close>: two strings compare as strings, everything else as numbers.
  \<open>a > b\<close> is \<open>b < a\<close>.\<close>

definition js_lt :: "builtins \<Rightarrow> jsval \<Rightarrow> jsval \<Rightarrow> bool" where
  "js_lt rt a b =
     (case (ToPrimitive rt a, ToPrimitive rt b) of
        (Str s, Str t) \<Rightarrow> s < t
      | (pa, pb) \<Rightarrow> num_lt (ToNumber rt pa) (ToNumber rt pb))"

definition js_gt :: "builtins \<Rightarrow> jsval \<Rightarrow> jsval \<Rightarrow> bool" where
  "js_gt rt a b = js_lt rt b a"

text \<open>
  \<open>a === b\<close>.  Two plain objects are equal only as references.  The objects this
  development compares come from different places (a stored document and the operand of a
  query), so they count as different references; the comparator below gives the same
  answer whichever way that test goes.
\<close>

fun strict_eq :: "jsval \<Rightarrow> jsval \<Rightarrow> bool" where
  "strict_eq Undefined b = (b = Undefined)"
| "strict_eq Null b = (b = Null)"
| "strict_eq (Bool x) b = (b = Bool x)"
| "strict_eq (Num x) b = (case b of Num y \<Rightarrow> num_eq x y | _ \<Rightarrow> False)"
| "strict_eq (Str s) b = (b = Str s)"
| "strict_eq (Obj _) b = False"
| "strict_eq (Builtin n) b = (b = Builtin n)"

text \<open>\<open>a == b\<close>.\<close>

fun loose_eq :: "builtins \<Rightarrow> jsval \<Rightarrow> jsval \<Rightarrow> bool" where
  "loose_eq rt Undefined b = (b = Undefined \<or> b = Null)"
| "loose_eq rt Null b = (b = Undefined \<or> b = Null)"
| "loose_eq rt a Undefined = False"
| "loose_eq rt a Null = False"
| "loose_eq rt (Obj _) (Obj _) = False"
| "loose_eq rt (Obj _) (Builtin _) = False"
| "loose_eq rt (Builtin _) (Obj _) = False"
| "loose_eq rt (Builtin m) (Builtin n) = (m = n)"
| "loose_eq rt (Str s) (Str t) = (s = t)"
| "loose_eq rt (Str s) (Obj fs) = (s = ToString rt (Obj fs))"
| "loose_eq rt (Str s) (Builtin n) = (s = ToString rt (Builtin n))"
| "loose_eq rt (Obj fs) (Str t) = (ToString rt (Obj fs) = t)"
| "loose_eq rt (Builtin n) (Str t) = (ToString rt (Builtin n) = t)"
| "loose_eq rt a b =
     num_eq (ToNumber rt (ToPrimitive rt a)) (ToNumber rt (ToPrimitive rt b))"

section \<open>The value comparator\<close>

text \<open>
  \<open>aeqHelper\<close>, \<open>ltHelper\<close> and \<open>gtHelper\<close> open with the same test, whether one operand
  is falsy, \<open>true\<close> or \<open>NaN\<close>, and the same \<open>switch\<close> that gives each operand a tier:
  \<open>undefined\<close> and \<open>null\<close> 1, \<open>false\<close> 3, \<open>true\<close> 4, the empty string 5, \<open>NaN\<close> 0 and
  every other value 9.
\<close>

fun edge_tier :: "jsval \<Rightarrow> nat" where
  "edge_tier Undefined = 1"
| "edge_tier Null = 1"
| "edge_tier (Bool b) = (if b then 4 else 3)"
| "edge_tier (Str s) = (if s = [] then 5 else 9)"
| "edge_tier (Num n) = (if n = NaN then 0 else 9)"
| "edge_tier (Obj _) = 9"
| "edge_tier (Builtin _) = 9"

definition edge_case :: "jsval \<Rightarrow> jsval \<Rightarrow> bool" where
  "edge_case prop1 prop2 =
     (falsy prop1 \<or> falsy prop2 \<or> prop1 = Bool True \<or> prop2 = Bool True
      \<or> prop1 = Num NaN \<or> prop2 = Num NaN)"

definition aeqHelper :: "builtins \<Rightarrow> jsval \<Rightarrow> jsval \<Rightarrow> bool" where
  "aeqHelper rt prop1 prop2 =
     (if strict_eq prop1 prop2 then True
      else if edge_case prop1 prop2
              \<and> (edge_tier prop1 \<noteq> 9 \<or> edge_tier prop2 \<noteq> 9)
      then edge_tier prop1 = edge_tier prop2
      else let cv1 = ToNumber rt prop1; cv2 = ToNumber rt prop2 in
        if cv1 \<noteq> NaN \<or> cv2 \<noteq> NaN then num_eq cv1 cv2
        else loose_eq rt (Str (ToString rt prop1)) (Str (ToString rt prop2)))"

definition ltHelper :: "builtins \<Rightarrow> jsval \<Rightarrow> jsval \<Rightarrow> bool \<Rightarrow> bool" where
  "ltHelper rt prop1 prop2 equal =
     (if edge_case prop1 prop2 \<and> (edge_tier prop1 \<noteq> 9 \<or> edge_tier prop2 \<noteq> 9)
      then (if edge_tier prop1 = edge_tier prop2 then equal
            else edge_tier prop1 < edge_tier prop2)
      else let cv1 = ToNumber rt prop1; cv2 = ToNumber rt prop2 in
        if cv1 \<noteq> NaN \<and> cv2 \<noteq> NaN then
          (if num_lt cv1 cv2 then True else if num_lt cv2 cv1 then False else equal)
        else if cv1 \<noteq> NaN \<and> cv2 = NaN then True
        else if cv2 \<noteq> NaN \<and> cv1 = NaN then False
        else if js_lt rt prop1 prop2 then True
        else if js_gt rt prop1 prop2 then False
        else if loose_eq rt prop1 prop2 then equal
        else let s1 = ToString rt prop1; s2 = ToString rt prop2 in
          if s1 < s2 then True else if s1 = s2 then equal else False)"

definition gtHelper :: "builtins \<Rightarrow> jsval \<Rightarrow> jsval \<Rightarrow> bool \<Rightarrow> bool" where
  "gtHelper rt prop1 prop2 equal =
     (if edge_case prop1 prop2 \<and> (edge_tier prop1 \<noteq> 9 \<or> edge_tier prop2 \<noteq> 9)
      then (if edge_tier prop1 = edge_tier prop2 then equal
            else edge_tier prop1 > edge_tier prop2)
      else let cv1 = ToNumber rt prop1; cv2 = ToNumber rt prop2 in
        if cv1 \<noteq> NaN \<and> cv2 \<noteq> NaN then
          (if num_lt cv2 cv1 then True else if num_lt cv1 cv2 then False else equal)
        else if cv1 \<noteq> NaN \<and> cv2 = NaN then False
        else if cv2 \<noteq> NaN \<and> cv1 = NaN then True
        else if js_gt rt prop1 prop2 then True
        else if js_lt rt prop1 prop2 then False
        else if loose_eq rt prop1 prop2 then equal
        else let s1 = ToString rt prop1; s2 = ToString rt prop2 in
          if s2 < s1 then True else if s1 = s2 then equal else False)"

section \<open>Objects, documents and arrays\<close>

text \<open>
  A plain object answers a property read with its own property of that name and
  otherwise with the member it inherits from \<open>Object.prototype\<close>; \<open>__proto__\<close> reads as
  that prototype, itself a plain object without modelled own properties.  A string
  answers with its \<open>length\<close> and, under an array index, with the character at that
  place.  The methods that strings, numbers and booleans inherit, and the members of
  built-in functions, are not modelled and read as \<open>undefined\<close>; the statements below
  about dotted property paths keep to paths that lead through plain objects.
\<close>

definition object_prototype_functions :: "string list" where
  "object_prototype_functions =
     [''constructor'', ''hasOwnProperty'', ''isPrototypeOf'', ''propertyIsEnumerable'',
      ''toLocaleString'', ''toString'', ''valueOf'', ''__defineGetter__'',
      ''__defineSetter__'', ''__lookupGetter__'', ''__lookupSetter__'']"

definition object_prototype_member :: "string \<Rightarrow> jsval" where
  "object_prototype_member p =
     (if p = ''__proto__'' then Obj []
      else if p \<in> set object_prototype_functions then Builtin p
      else Undefined)"

type_synonym doc = "(string \<times> jsval) list"

definition own_get :: "(string \<times> jsval) list \<Rightarrow> string \<Rightarrow> jsval" where
  "own_get fs p = (case map_of fs p of Some v \<Rightarrow> v | None \<Rightarrow> Undefined)"

text \<open>An array index is a decimal numeral without a leading zero.\<close>

definition digit_value :: "char \<Rightarrow> nat option" where
  "digit_value ch =
     (let n = (of_char ch :: nat) in if 48 \<le> n \<and> n \<le> 57 then Some (n - 48) else None)"

fun decimal_value :: "nat \<Rightarrow> string \<Rightarrow> nat option" where
  "decimal_value acc [] = Some acc"
| "decimal_value acc (ch # cs) =
     (case digit_value ch of
        None \<Rightarrow> None
      | Some d \<Rightarrow> decimal_value (10 * acc + d) cs)"

definition array_index :: "string \<Rightarrow> nat option" where
  "array_index p =
     (if p = [] \<or> (hd p = CHR ''0'' \<and> p \<noteq> ''0'') then None else decimal_value 0 p)"

fun js_get :: "jsval \<Rightarrow> string \<Rightarrow> jsval" where
  "js_get (Obj fs) p =
     (case map_of fs p of Some v \<Rightarrow> v | None \<Rightarrow> object_prototype_member p)"
| "js_get (Str s) p =
     (if p = ''length'' then Num (Fin (of_nat (length s)))
      else (case array_index p of
              Some i \<Rightarrow> (if i < length s then Str [s ! i] else Undefined)
            | None \<Rightarrow> Undefined))"
| "js_get v p = Undefined"

definition has_own :: "(string \<times> 'a) list \<Rightarrow> string \<Rightarrow> bool" where
  "has_own fs p = (p \<in> fst ` set fs)"

fun set_own :: "string \<Rightarrow> 'a \<Rightarrow> (string \<times> 'a) list \<Rightarrow> (string \<times> 'a) list" where
  "set_own k v [] = [(k, v)]"
| "set_own k v ((k', v') # fs) = (if k = k' then (k, v) # fs else (k', v') # set_own k v fs)"

definition delete_own :: "string \<Rightarrow> (string \<times> 'a) list \<Rightarrow> (string \<times> 'a) list" where
  "delete_own k fs = filter (\<lambda>kv. fst kv \<noteq> k) fs"

text \<open>\<open>typeof v\<close>.\<close>

fun typeof :: "jsval \<Rightarrow> string" where
  "typeof Undefined = ''undefined''"
| "typeof Null = ''object''"
| "typeof (Bool _) = ''boolean''"
| "typeof (Num _) = ''number''"
| "typeof (Str _) = ''string''"
| "typeof (Obj _) = ''object''"
| "typeof (Builtin _) = ''function''"

text \<open>
  The value read from a dictionary written as an object literal \<open>{}\<close>: an own entry,
  a member inherited from \<open>Object.prototype\<close>, or nothing.
\<close>

datatype 'a slot = Own 'a | Inherited jsval | Missing

definition dict_slot :: "(string \<times> 'a) list \<Rightarrow> string \<Rightarrow> 'a slot" where
  "dict_slot m k =
     (case map_of m k of
        Some x \<Rightarrow> Own x
      | None \<Rightarrow> (if object_prototype_member k = Undefined then Missing
                 else Inherited (object_prototype_member k)))"

text \<open>
  Array reads: an index outside the array reads as \<open>undefined\<close>, and so does the element
  at an \<open>undefined\<close> index.  \<open>splice\<close> counts a negative start from the end and clamps
  it to the array.
\<close>

definition js_nth :: "'a list \<Rightarrow> int \<Rightarrow> 'a option" where
  "js_nth xs i = (if 0 \<le> i \<and> i < int (length xs) then Some (xs ! nat i) else None)"

definition val_at :: "jsval list \<Rightarrow> int \<Rightarrow> jsval" where
  "val_at xs i = (case js_nth xs i of Some v \<Rightarrow> v | None \<Rightarrow> Undefined)"

definition rcd_at :: "doc list \<Rightarrow> int option \<Rightarrow> jsval" where
  "rcd_at rcd i =
     (case i of
        None \<Rightarrow> Undefined
      | Some j \<Rightarrow> (case js_nth rcd j of None \<Rightarrow> Undefined | Some d \<Rightarrow> Obj d))"

definition splice_start :: "'a list \<Rightarrow> int \<Rightarrow> nat" where
  "splice_start xs start =
     (let len = int (length xs) in
      if start < 0 then nat (max (len + start) 0) else nat (min start len))"

definition splice_insert :: "'a list \<Rightarrow> int \<Rightarrow> 'a \<Rightarrow> 'a list" where
  "splice_insert xs start x =
     (let s = splice_start xs start in take s xs @ [x] @ drop s xs)"

definition splice_remove1 :: "'a list \<Rightarrow> int \<Rightarrow> 'a list" where
  "splice_remove1 xs start =
     (let s = splice_start xs start in take s xs @ drop (Suc s) xs)"

section \<open>Utils.getIn\<close>

text \<open>\<open>path.split('.')\<close> and the walk along the split path.\<close>

fun split_dot :: "string \<Rightarrow> string list" where
  "split_dot [] = [[]]"
| "split_dot (c # cs) =
     (if c = CHR ''.'' then [] # split_dot cs
      else (case split_dot cs of [] \<Rightarrow> [[c]] | p # ps \<Rightarrow> (c # p) # ps))"

definition is_nullish :: "jsval \<Rightarrow> bool" where
  "is_nullish v = (v = Undefined \<or> v = Null)"

fun getIn_walk :: "jsval \<Rightarrow> string list \<Rightarrow> jsval" where
  "getIn_walk object [] = object"
| "getIn_walk object (p # ps) =
     (if is_nullish object then Undefined else getIn_walk (js_get object p) ps)"

definition getIn :: "jsval \<Rightarrow> string \<Rightarrow> bool \<Rightarrow> jsval" where
  "getIn object path usingDotNotation =
     (if is_nullish object then Undefined
      else if \<not> usingDotNotation then js_get object path
      else (case split_dot path of [] \<Rightarrow> Undefined | ps \<Rightarrow> getIn_walk object ps))"

definition isDeepProperty :: "string \<Rightarrow> bool" where
  "isDeepProperty prop = (CHR ''.'' \<in> set prop)"

section \<open>The collection\<close>

text \<open>
  The state of a collection as far as insert, remove, get and the range search read and
  write it.  The collection is in its default configuration otherwise: documents are not
  cloned or frozen, the changes API and incremental persistence are off, no transaction
  snapshot is taken, and no dynamic view or event listener is registered, so the calls
  that serve them do nothing.  \<open>idIndex\<close> is \<open>null\<close> until it is first needed.
\<close>

datatype error = TypeError string | Error string

record binary_index =
  idx_name :: string
  idx_dirty :: bool
  idx_values :: "int list"

record unique_index =
  field :: string
  keyMap :: "(string \<times> jsval) list"
  lokiMap :: "(string \<times> jsval) list"

record collection =
  data :: "doc list"
  idIndex :: "jsval list option"
  binaryIndices :: "(string \<times> binary_index) list"
  uniqueNames :: "string list"
  constraints_unique :: "(string \<times> unique_index) list"
  maxId :: jsval
  adaptiveBinaryIndices :: bool
  disableMeta :: bool
  dirty :: bool

type_synonym 'a outcome = "(error \<times> collection) + 'a"

text \<open>The collection after a call, whether it returned or threw.\<close>

definition state_of :: "(collection \<times> 'a) outcome \<Rightarrow> collection" where
  "state_of r = (case r of Inl (e, c) \<Rightarrow> c | Inr (c, v) \<Rightarrow> c)"

subsection \<open>UniqueIndex\<close>

text \<open>
  \<open>keyMap\<close> and \<open>lokiMap\<close> are created without a prototype, so a read sees own keys
  only.  A key is the string of the value used as key.  \<open>keyMap\<close> holds the document
  registered under a key as it was when registered; only its truth value and its \<open>$loki\<close>
  are read back.
\<close>

definition UniqueIndex :: "string \<Rightarrow> unique_index" where
  "UniqueIndex uniqueField = \<lparr>field = uniqueField, keyMap = [], lokiMap = []\<rparr>"

definition duplicate_key_message :: "string \<Rightarrow> string \<Rightarrow> string" where
  "duplicate_key_message f v = ''Duplicate key for property '' @ f @ '': '' @ v"

definition UniqueIndex_set :: "builtins \<Rightarrow> unique_index \<Rightarrow> doc \<Rightarrow> error + unique_index" where
  "UniqueIndex_set rt ui obj =
     (let fieldValue = js_get (Obj obj) (field ui) in
      if fieldValue \<noteq> Null \<and> fieldValue \<noteq> Undefined then
        (if \<not> falsy (own_get (keyMap ui) (ToString rt fieldValue))
         then Inl (Error (duplicate_key_message (field ui) (ToString rt fieldValue)))
         else Inr (ui\<lparr>keyMap := set_own (ToString rt fieldValue) (Obj obj) (keyMap ui),
                      lokiMap := set_own (ToString rt (js_get (Obj obj) ''$loki''))
                                   fieldValue (lokiMap ui)\<rparr>))
      else Inr ui)"

definition UniqueIndex_remove :: "builtins \<Rightarrow> unique_index \<Rightarrow> jsval \<Rightarrow> error + unique_index" where
  "UniqueIndex_remove rt ui key =
     (let obj = own_get (keyMap ui) (ToString rt key) in
      if obj \<noteq> Null \<and> obj \<noteq> Undefined then
        Inr (ui\<lparr>keyMap := set_own (ToString rt key) Undefined (keyMap ui),
                lokiMap := set_own (ToString rt (js_get obj ''$loki'')) Undefined (lokiMap ui)\<rparr>)
      else Inl (Error (''Key is not in unique index: '' @ field ui)))"

text \<open>
  \<open>ensureUniqueIndex\<close> stores the new index before it registers the documents, so a
  duplicate among them leaves the index half filled in the collection.
\<close>

fun set_each :: "builtins \<Rightarrow> unique_index \<Rightarrow> doc list \<Rightarrow> (error \<times> unique_index) + unique_index" where
  "set_each rt ui [] = Inr ui"
| "set_each rt ui (obj # objs) =
     (case UniqueIndex_set rt ui obj of
        Inl e \<Rightarrow> Inl (e, ui)
      | Inr ui' \<Rightarrow> set_each rt ui' objs)"

definition ensureUniqueIndex :: "builtins \<Rightarrow> collection \<Rightarrow> string \<Rightarrow> (collection \<times> unique_index) outcome" where
  "ensureUniqueIndex rt c fld =
     (let c1 = (case dict_slot (constraints_unique c) fld of
                  Missing \<Rightarrow> (if fld \<notin> set (uniqueNames c)
                              then c\<lparr>uniqueNames := uniqueNames c @ [fld]\<rparr> else c)
                | _ \<Rightarrow> c)
      in case set_each rt (UniqueIndex fld) (data c1) of
           Inl (e, ui) \<Rightarrow>
             Inl (e, c1\<lparr>constraints_unique := set_own fld ui (constraints_unique c1)\<rparr>)
         | Inr ui \<Rightarrow>
             Inr (c1\<lparr>constraints_unique := set_own fld ui (constraints_unique c1)\<rparr>, ui))"

definition getUniqueIndex :: "builtins \<Rightarrow> collection \<Rightarrow> string \<Rightarrow> bool \<Rightarrow> (collection \<times> unique_index slot) outcome" where
  "getUniqueIndex rt c fld force =
     (case dict_slot (constraints_unique c) fld of
        Missing \<Rightarrow>
          (if force then
             (case ensureUniqueIndex rt c fld of
                Inl e \<Rightarrow> Inl e
              | Inr (c', ui) \<Rightarrow> Inr (c', Own ui))
           else Inr (c, Missing))
      | s \<Rightarrow> Inr (c, s))"

subsection \<open>Binary indices: the range search\<close>

text \<open>
  \<open>index_val rcd index prop dot i\<close> is the expression
  \<open>Utils.getIn(rcd[index[i]], prop, usingDotNotation)\<close>, the indexed value of the
  document that the index lists at place \<open>i\<close>.  \<open>calculateRangeStart\<close> and
  \<open>calculateRangeEnd\<close> receive the document array and the \<open>values\<close> array of the index,
  which their callers have read from \<open>this.binaryIndices[prop]\<close> before.
\<close>

definition index_val :: "doc list \<Rightarrow> int list \<Rightarrow> string \<Rightarrow> bool \<Rightarrow> int \<Rightarrow> jsval" where
  "index_val rcd index prop usingDotNotation i =
     getIn (rcd_at rcd (js_nth index i)) prop usingDotNotation"

function calculateRangeStart_loop ::
  "builtins \<Rightarrow> (int \<Rightarrow> jsval) \<Rightarrow> jsval \<Rightarrow> int \<Rightarrow> int \<Rightarrow> int" where
  "calculateRangeStart_loop rt valueAt val lo hi =
     (if lo < hi then
        (let mid = (lo + hi) div 2 in
         if ltHelper rt (valueAt mid) val False
         then calculateRangeStart_loop rt valueAt val (mid + 1) hi
         else calculateRangeStart_loop rt valueAt val lo mid)
      else lo)"
  by pat_completeness auto
termination
  by (relation "measure (\<lambda>(rt, valueAt, val, lo, hi). nat (hi - lo))") auto

declare calculateRangeStart_loop.simps [simp del]

definition calculateRangeStart ::
  "builtins \<Rightarrow> doc list \<Rightarrow> int list \<Rightarrow> string \<Rightarrow> jsval \<Rightarrow> bool \<Rightarrow> bool \<Rightarrow> int" where
  "calculateRangeStart rt rcd index prop val adaptive usingDotNotation =
     (if length index = 0 then - 1
      else
        let valueAt = index_val rcd index prop usingDotNotation;
            lbound = calculateRangeStart_loop rt valueAt val 0 (int (length index) - 1)
        in if aeqHelper rt val (valueAt lbound) then lbound
           else if ltHelper rt val (valueAt lbound) False
                then (if adaptive then lbound else lbound - 1)
           else (if adaptive then lbound + 1 else lbound))"

function calculateRangeEnd_loop ::
  "builtins \<Rightarrow> (int \<Rightarrow> jsval) \<Rightarrow> jsval \<Rightarrow> int \<Rightarrow> int \<Rightarrow> int" where
  "calculateRangeEnd_loop rt valueAt val lo hi =
     (if lo < hi then
        (let mid = (lo + hi) div 2 in
         if ltHelper rt val (valueAt mid) False
         then calculateRangeEnd_loop rt valueAt val lo mid
         else calculateRangeEnd_loop rt valueAt val (mid + 1) hi)
      else hi)"
  by pat_completeness auto
termination
  by (relation "measure (\<lambda>(rt, valueAt, val, lo, hi). nat (hi - lo))") auto

declare calculateRangeEnd_loop.simps [simp del]

definition calculateRangeEnd ::
  "builtins \<Rightarrow> doc list \<Rightarrow> int list \<Rightarrow> string \<Rightarrow> jsval \<Rightarrow> bool \<Rightarrow> int" where
  "calculateRangeEnd rt rcd index prop val usingDotNotation =
     (if length index = 0 then - 1
      else
        let valueAt = index_val rcd index prop usingDotNotation;
            ubound = calculateRangeEnd_loop rt valueAt val 0 (int (length index) - 1)
        in if aeqHelper rt val (valueAt ubound) then ubound
           else if gtHelper rt val (valueAt ubound) False then ubound + 1
           else if aeqHelper rt val (valueAt (ubound - 1)) then ubound - 1
           else ubound)"

text \<open>
  The operators of a query with their operands: \<open>$eq\<close>, \<open>$aeq\<close>, \<open>$dteq\<close>, \<open>$gt\<close>,
  \<open>$gte\<close>, \<open>$lt\<close>, \<open>$lte\<close> and \<open>$ne\<close> take a value, \<open>$between\<close> and \<open>$in\<close> an array.
  All but \<open>$ne\<close> are registered in \<open>indexedOps\<close>.
\<close>

datatype query_op =
    OpEq jsval | OpAeq jsval | OpDteq jsval
  | OpGt jsval | OpGte jsval | OpLt jsval | OpLte jsval
  | OpBetween "jsval list" | OpIn "jsval list"
  | OpNe jsval

text \<open>
  \<open>calculateRange\<close> is three \<open>switch\<close> statements over the operator: the guards for a
  value outside the indexed values, the two binary searches, and the choice of the
  bounds.  Each of the following definitions is the path of one operator through them;
  \<open>$eq\<close>, \<open>$aeq\<close> and \<open>$dteq\<close> share theirs.  \<open>min\<close> is 0 and \<open>max\<close> the last place of
  the index.
\<close>

definition range_eq ::
  "builtins \<Rightarrow> doc list \<Rightarrow> int list \<Rightarrow> string \<Rightarrow> jsval \<Rightarrow> int \<times> int" where
  "range_eq rt rcd index prop val =
     (let usingDotNotation = isDeepProperty prop;
          valueAt = index_val rcd index prop usingDotNotation;
          max = int (length index) - 1;
          minVal = valueAt 0; maxVal = valueAt max
      in if ltHelper rt val minVal False \<or> gtHelper rt val maxVal False then (0, - 1)
         else
           let lbound = calculateRangeStart rt rcd index prop val False usingDotNotation;
               lval = valueAt lbound;
               ubound = calculateRangeEnd rt rcd index prop val usingDotNotation
           in if \<not> aeqHelper rt lval val then (0, - 1) else (lbound, ubound))"

definition range_gt ::
  "builtins \<Rightarrow> doc list \<Rightarrow> int list \<Rightarrow> string \<Rightarrow> jsval \<Rightarrow> int \<times> int" where
  "range_gt rt rcd index prop val =
     (let usingDotNotation = isDeepProperty prop;
          valueAt = index_val rcd index prop usingDotNotation;
          max = int (length index) - 1;
          minVal = valueAt 0; maxVal = valueAt max
      in if gtHelper rt val maxVal True then (0, - 1)
         else if gtHelper rt minVal val False then (0, max)
         else
           let ubound = calculateRangeEnd rt rcd index prop val usingDotNotation
           in if \<not> aeqHelper rt (valueAt ubound) val then (ubound, max)
              else (ubound + 1, max))"

definition range_gte ::
  "builtins \<Rightarrow> doc list \<Rightarrow> int list \<Rightarrow> string \<Rightarrow> jsval \<Rightarrow> int \<times> int" where
  "range_gte rt rcd index prop val =
     (let usingDotNotation = isDeepProperty prop;
          valueAt = index_val rcd index prop usingDotNotation;
          max = int (length index) - 1;
          minVal = valueAt 0; maxVal = valueAt max
      in if gtHelper rt val maxVal False then (0, - 1)
         else if gtHelper rt minVal val True then (0, max)
         else
           let lbound = calculateRangeStart rt rcd index prop val False usingDotNotation
           in if \<not> aeqHelper rt (valueAt lbound) val then (lbound + 1, max)
              else (lbound, max))"

definition range_lt ::
  "builtins \<Rightarrow> doc list \<Rightarrow> int list \<Rightarrow> string \<Rightarrow> jsval \<Rightarrow> int \<times> int" where
  "range_lt rt rcd index prop val =
     (let usingDotNotation = isDeepProperty prop;
          valueAt = index_val rcd index prop usingDotNotation;
          max = int (length index) - 1;
          minVal = valueAt 0; maxVal = valueAt max
      in if ltHelper rt val minVal True then (0, - 1)
         else if ltHelper rt maxVal val False then (0, max)
         else
           let lbound = calculateRangeStart rt rcd index prop val False usingDotNotation
           in if \<not> aeqHelper rt (valueAt lbound) val then (0, lbound)
              else (0, lbound - 1))"

definition range_lte ::
  "builtins \<Rightarrow> doc list \<Rightarrow> int list \<Rightarrow> string \<Rightarrow> jsval \<Rightarrow> int \<times> int" where
  "range_lte rt rcd index prop val =
     (let usingDotNotation = isDeepProperty prop;
          valueAt = index_val rcd index prop usingDotNotation;
          max = int (length index) - 1;
          minVal = valueAt 0; maxVal = valueAt max
      in if ltHelper rt val minVal False then (0, - 1)
         else if ltHelper rt maxVal val True then (0, max)
         else
           let ubound = calculateRangeEnd rt rcd index prop val usingDotNotation
           in if \<not> aeqHelper rt (valueAt ubound) val then (0, ubound - 1)
              else (0, ubound))"

definition range_between ::
  "builtins \<Rightarrow> doc list \<Rightarrow> int list \<Rightarrow> string \<Rightarrow> jsval list \<Rightarrow> int \<times> int" where
  "range_between rt rcd index prop val =
     (let usingDotNotation = isDeepProperty prop;
          valueAt = index_val rcd index prop usingDotNotation;
          max = int (length index) - 1;
          minVal = valueAt 0; maxVal = valueAt max;
          val0 = val_at val 0; val1 = val_at val 1
      in if gtHelper rt val0 maxVal False then (0, - 1)
         else if ltHelper rt val1 minVal False then (0, - 1)
         else
           let lbound = calculateRangeStart rt rcd index prop val0 False usingDotNotation;
               ubound = calculateRangeEnd rt rcd index prop val1 usingDotNotation;
               lbound = (if lbound < 0 then lbound + 1 else lbound);
               ubound = (if ubound > max then ubound - 1 else ubound);
               lbound = (if \<not> gtHelper rt (valueAt lbound) val0 True then lbound + 1 else lbound);
               ubound = (if \<not> ltHelper rt (valueAt ubound) val1 True then ubound - 1 else ubound)
           in if ubound < lbound then (0, - 1) else (lbound, ubound))"

text \<open>
  The \<open>$in\<close> case asks for the \<open>$eq\<close> range of each operand in turn and collects the
  places not collected before.
\<close>

fun push_new :: "int list \<Rightarrow> int list \<Rightarrow> int list" where
  "push_new segResult [] = segResult"
| "push_new segResult (i # rest) =
     push_new (if i \<in> set segResult then segResult else segResult @ [i]) rest"

fun range_in ::
  "builtins \<Rightarrow> doc list \<Rightarrow> int list \<Rightarrow> string \<Rightarrow> int list \<Rightarrow> jsval list \<Rightarrow> int list" where
  "range_in rt rcd index prop segResult [] = segResult"
| "range_in rt rcd index prop segResult (v # vs) =
     (let seg = range_eq rt rcd index prop v
      in range_in rt rcd index prop
           (push_new segResult [fst seg .. snd seg]) vs)"

text \<open>
  The result of \<open>calculateRange\<close>: the two-element array \<open>[lo, hi]\<close> of an inclusive
  range of places in the index, or for \<open>$in\<close> the array of the places themselves.
\<close>

datatype segment = Range int int | Places "int list"

definition to_Range :: "int \<times> int \<Rightarrow> segment" where
  "to_Range p = Range (fst p) (snd p)"

text \<open>
  \<open>this.binaryIndices[prop].values\<close> is read from an object literal.  Under a name that
  \<open>binaryIndices\<close> only inherits the read does not find an index: \<open>constructor\<close> gives the
  function \<open>Object\<close>, whose \<open>values\<close> is the function \<open>Object.values\<close>, and any other
  inherited member has no \<open>values\<close>, so that reading its \<open>length\<close> throws.
  \<open>Object.values\<close> read as an array has length 1 and no element: \<open>rcd[index[i]]\<close> is
  \<open>undefined\<close> at every \<open>i\<close>.  The one-element list \<open>[- 1]\<close> reads in the same way, the
  documents having no position \<open>- 1\<close>, and stands for it in the range search.
\<close>

definition Object_values_as_index :: "int list" where
  "Object_values_as_index = [- 1]"

definition index_values_of :: "collection \<Rightarrow> string \<Rightarrow> error + int list" where
  "index_values_of c prop =
     (case dict_slot (binaryIndices c) prop of
        Own bi \<Rightarrow> Inr (idx_values bi)
      | Inherited b \<Rightarrow>
          (if b = Builtin ''constructor'' then Inr Object_values_as_index
           else Inl (TypeError ''Cannot read properties of undefined (reading length)''))
      | Missing \<Rightarrow> Inl (TypeError ''Cannot read properties of undefined (reading values)''))"

definition calculateRange ::
  "builtins \<Rightarrow> collection \<Rightarrow> query_op \<Rightarrow> string \<Rightarrow> error + segment" where
  "calculateRange rt c op prop =
     (case index_values_of c prop of
        Inl e \<Rightarrow> Inl e
      | Inr index \<Rightarrow>
          (let rcd = data c in
           if length rcd = 0 then Inr (Range 0 (- 1))
           else Inr (case op of
               OpEq val \<Rightarrow> to_Range (range_eq rt rcd index prop val)
             | OpAeq val \<Rightarrow> to_Range (range_eq rt rcd index prop val)
             | OpDteq val \<Rightarrow> to_Range (range_eq rt rcd index prop val)
             | OpGt val \<Rightarrow> to_Range (range_gt rt rcd index prop val)
             | OpGte val \<Rightarrow> to_Range (range_gte rt rcd index prop val)
             | OpLt val \<Rightarrow> to_Range (range_lt rt rcd index prop val)
             | OpLte val \<Rightarrow> to_Range (range_lte rt rcd index prop val)
             | OpBetween val \<Rightarrow> to_Range (range_between rt rcd index prop val)
             | OpIn val \<Rightarrow> Places (range_in rt rcd index prop [] val)
             | OpNe val \<Rightarrow> Range 0 (int (length rcd) - 1))))"

subsection \<open>Binary indices: adaptive maintenance\<close>

definition getBinaryIndexPosition ::
  "builtins \<Rightarrow> collection \<Rightarrow> int \<Rightarrow> string \<Rightarrow> error + int option" where
  "getBinaryIndexPosition rt c dataPosition binaryIndexName =
     (let val = getIn (rcd_at (data c) (Some dataPosition)) binaryIndexName True in
      case map_of (binaryIndices c) binaryIndexName of
        None \<Rightarrow> Inl (TypeError ''Cannot read properties of undefined (reading values)'')
      | Some bi \<Rightarrow>
          (case calculateRange rt c (OpEq val) binaryIndexName of
             Inl e \<Rightarrow> Inl e
           | Inr (Places ps) \<Rightarrow> Inr None
           | Inr (Range lo hi) \<Rightarrow>
               (if lo = 0 \<and> hi = - 1 then Inr None
                else Inr (find (\<lambda>idx. js_nth (idx_values bi) idx = Some dataPosition)
                            [lo .. hi]))))"

definition adaptiveBinaryIndexInsert ::
  "builtins \<Rightarrow> collection \<Rightarrow> int \<Rightarrow> string \<Rightarrow> error + collection" where
  "adaptiveBinaryIndexInsert rt c dataPosition binaryIndexName =
     (let usingDotNotation = isDeepProperty binaryIndexName in
      case map_of (binaryIndices c) binaryIndexName of
        None \<Rightarrow> Inl (TypeError ''Cannot read properties of undefined (reading values)'')
      | Some bi \<Rightarrow>
          (let index = idx_values bi;
               val = getIn (rcd_at (data c) (Some dataPosition)) binaryIndexName usingDotNotation;
               idxPos = (if length index = 0 then 0
                         else calculateRangeStart rt (data c) index binaryIndexName val
                                True usingDotNotation)
           in Inr (c\<lparr>binaryIndices :=
                       set_own binaryIndexName
                         (bi\<lparr>idx_values := splice_insert index idxPos dataPosition\<rparr>)
                         (binaryIndices c)\<rparr>)))"

definition adaptiveBinaryIndexRemove ::
  "builtins \<Rightarrow> collection \<Rightarrow> int \<Rightarrow> string \<Rightarrow> bool \<Rightarrow> error + collection" where
  "adaptiveBinaryIndexRemove rt c dataPosition binaryIndexName removedFromIndexOnly =
     (case map_of (binaryIndices c) binaryIndexName of
        None \<Rightarrow> Inl (TypeError ''Cannot read properties of undefined (reading values)'')
      | Some bi \<Rightarrow>
          (case getBinaryIndexPosition rt c dataPosition binaryIndexName of
             Inl e \<Rightarrow> Inl e
           | Inr None \<Rightarrow> Inr c
           | Inr (Some idxPos) \<Rightarrow>
               (let spliced = splice_remove1 (idx_values bi) idxPos;
                    shifted = (if removedFromIndexOnly then spliced
                               else map (\<lambda>v. if v > dataPosition then v - 1 else v) spliced)
                in Inr (c\<lparr>binaryIndices :=
                            set_own binaryIndexName (bi\<lparr>idx_values := shifted\<rparr>)
                              (binaryIndices c)\<rparr>))))"

definition flagBinaryIndexesDirty :: "collection \<Rightarrow> collection" where
  "flagBinaryIndexesDirty c =
     c\<lparr>binaryIndices := map (\<lambda>(key, bi). (key, bi\<lparr>idx_dirty := True\<rparr>)) (binaryIndices c)\<rparr>"

subsection \<open>Collection.get\<close>

text \<open>
  The search of \<open>get\<close> runs while \<open>data[min] < data[max]\<close>, a test on the stored ids and
  not on the two bounds, so its termination is a property to prove: the loop is a partial
  function and \<open>None\<close> stands for a search that never returns.
\<close>

definition doc_id :: "doc \<Rightarrow> jsval" where
  "doc_id d = js_get (Obj d) ''$loki''"

definition ensureId :: "collection \<Rightarrow> collection" where
  "ensureId c =
     (case idIndex c of
        Some _ \<Rightarrow> c
      | None \<Rightarrow> c\<lparr>idIndex := Some (map doc_id (data c))\<rparr>)"

partial_function (option) get_loop ::
  "builtins \<Rightarrow> jsval list \<Rightarrow> jsval \<Rightarrow> int \<Rightarrow> int \<Rightarrow> (int \<times> int) option" where
  "get_loop rt ids wanted lo hi =
     (if js_lt rt (val_at ids lo) (val_at ids hi) then
        (if js_lt rt (val_at ids ((lo + hi) div 2)) wanted
         then get_loop rt ids wanted ((lo + hi) div 2 + 1) hi
         else get_loop rt ids wanted lo ((lo + hi) div 2))
      else Some (lo, hi))"

declare get_loop.simps [code]

text \<open>What \<open>get\<close> returns: \<open>null\<close>, the document, or the pair of document and position.\<close>

datatype get_result = NotFound | Found jsval | FoundAt jsval int

text \<open>\<open>typeof id === 'number' ? id : parseInt(id, 10)\<close>.\<close>

definition id_number :: "builtins \<Rightarrow> jsval \<Rightarrow> jsnum" where
  "id_number rt wanted =
     (case wanted of
        Num x \<Rightarrow> x
      | v \<Rightarrow> parseInt_of_string rt (ToString rt v))"

definition get ::
  "builtins \<Rightarrow> collection \<Rightarrow> jsval \<Rightarrow> bool \<Rightarrow> (collection \<times> get_result) outcome option" where
  "get rt c wanted returnPosition =
     (let c1 = ensureId c;
          ids = (case idIndex c1 of Some xs \<Rightarrow> xs | None \<Rightarrow> []);
          n = id_number rt wanted
      in if n = NaN then Some (Inl (TypeError ''Passed id is not an integer'', c1))
         else
           (case get_loop rt ids (Num n) 0 (int (length ids) - 1) of
              None \<Rightarrow> None
            | Some (lo, hi) \<Rightarrow>
                Some (Inr (c1,
                  if hi = lo \<and> strict_eq (val_at ids lo) (Num n)
                  then (if returnPosition then FoundAt (rcd_at (data c1) (Some lo)) lo
                        else Found (rcd_at (data c1) (Some lo)))
                  else NotFound))))"

subsection \<open>Collection.add, insertOne, insert\<close>

text \<open>
  \<open>add\<close> works on the caller's object: it writes \<open>$loki\<close> and \<open>meta.version\<close> into it
  and stores that same object.  An error raised inside its \<open>try\<close> block is thrown again
  after the handler has run; the handler restores nothing in the default configuration,
  so the error carries the state reached when it was raised.  The source is a strict-mode
  module: writing a property of a primitive \<open>meta\<close> is a \<open>TypeError\<close>.
\<close>

definition js_plus1 :: "builtins \<Rightarrow> jsval \<Rightarrow> jsval" where
  "js_plus1 rt v =
     (case ToPrimitive rt v of
        Str s \<Rightarrow> Str (s @ ''1'')
      | p \<Rightarrow> Num (num_succ (ToNumber rt p)))"

fun add_unique :: "builtins \<Rightarrow> doc \<Rightarrow> string list \<Rightarrow> collection \<Rightarrow> collection outcome" where
  "add_unique rt obj [] c = Inr c"
| "add_unique rt obj (name # names) c =
     (case getUniqueIndex rt c name True of
        Inl e \<Rightarrow> Inl e
      | Inr (c1, Own ui) \<Rightarrow>
          (case UniqueIndex_set rt ui obj of
             Inl e \<Rightarrow> Inl (e, c1)
           | Inr ui' \<Rightarrow>
               add_unique rt obj names
                 (c1\<lparr>constraints_unique := set_own name ui' (constraints_unique c1)\<rparr>))
      | Inr (c1, _) \<Rightarrow> Inl (TypeError ''index.set is not a function'', c1))"

fun adaptive_insert_each ::
  "builtins \<Rightarrow> int \<Rightarrow> string list \<Rightarrow> collection \<Rightarrow> collection outcome" where
  "adaptive_insert_each rt addedPos [] c = Inr c"
| "adaptive_insert_each rt addedPos (key # keys) c =
     (case adaptiveBinaryIndexInsert rt c addedPos key of
        Inl e \<Rightarrow> Inl (e, c)
      | Inr c' \<Rightarrow> adaptive_insert_each rt addedPos keys c')"

definition set_meta_version :: "doc \<Rightarrow> error + doc" where
  "set_meta_version obj =
     (case js_get (Obj obj) ''meta'' of
        Obj m \<Rightarrow> Inr (set_own ''meta'' (Obj (set_own ''version'' (Num (Fin 0)) m)) obj)
      | Builtin b \<Rightarrow> Inr obj
      | Undefined \<Rightarrow> Inl (TypeError ''Cannot set properties of undefined (setting version)'')
      | Null \<Rightarrow> Inl (TypeError ''Cannot set properties of null (setting version)'')
      | _ \<Rightarrow> Inl (TypeError ''Cannot create property version on a primitive''))"

definition add_try :: "builtins \<Rightarrow> collection \<Rightarrow> doc \<Rightarrow> (collection \<times> jsval) outcome" where
  "add_try rt c props =
     (let c1 = c\<lparr>maxId := Num (num_succ (ToNumber rt (maxId c)))\<rparr> in
      if maxId c1 = Num NaN \<and> data c1 = []
      then Inl (TypeError ''Cannot read properties of undefined (reading $loki)'', c1)
      else
        let c2 = (if maxId c1 = Num NaN
                  then c1\<lparr>maxId := js_plus1 rt (js_get (Obj (last (data c1))) ''$loki'')\<rparr>
                  else c1);
            newId = maxId c2;
            obj1 = set_own ''$loki'' newId props
        in case (if \<not> disableMeta c2 then set_meta_version obj1 else Inr obj1) of
             Inl e \<Rightarrow> Inl (e, c2)
           | Inr obj \<Rightarrow>
               (case add_unique rt obj (uniqueNames c2) c2 of
                  Inl e \<Rightarrow> Inl e
                | Inr c3 \<Rightarrow>
                    (let c4 = c3\<lparr>idIndex := map_option (\<lambda>ids. ids @ [newId]) (idIndex c3),
                                  data := data c3 @ [obj]\<rparr>;
                         addedPos = int (length (data c4)) - 1
                     in case (if adaptiveBinaryIndices c4
                              then adaptive_insert_each rt addedPos
                                     (map fst (binaryIndices c4)) c4
                              else Inr (flagBinaryIndexesDirty c4)) of
                          Inl e \<Rightarrow> Inl e
                        | Inr c5 \<Rightarrow> Inr (c5\<lparr>dirty := True\<rparr>, Obj obj))))"

definition already_in_collection :: error where
  "already_in_collection = Error ''Document is already in collection, please use update()''"

definition add :: "builtins \<Rightarrow> collection \<Rightarrow> jsval \<Rightarrow> (collection \<times> jsval) outcome" where
  "add rt c obj =
     (if typeof obj \<noteq> ''object''
      then Inl (TypeError ''Object being added needs to be an object'', c)
      else case obj of
        Obj props \<Rightarrow>
          (if typeof (js_get obj ''$loki'') \<noteq> ''undefined''
           then Inl (already_in_collection, c)
           else add_try rt c props)
      | _ \<Rightarrow> Inl (TypeError ''Cannot read properties of null (reading $loki)'', c))"

text \<open>
  \<open>insertMeta\<close> stamps the creation time, the reading \<open>now\<close> of the clock, into the
  object that \<open>add\<close> has stored, which is the last of \<open>data\<close>.
\<close>

definition insertMeta :: "collection \<Rightarrow> jsnum \<Rightarrow> doc \<Rightarrow> error + doc" where
  "insertMeta c now obj =
     (if disableMeta c then Inr obj
      else
        let obj1 = (if falsy (js_get (Obj obj) ''meta'') then set_own ''meta'' (Obj []) obj
                    else obj)
        in case js_get (Obj obj1) ''meta'' of
             Obj m \<Rightarrow>
               Inr (set_own ''meta''
                      (Obj (set_own ''revision'' (Num (Fin 0)) (set_own ''created'' (Num now) m)))
                      obj1)
           | Builtin b \<Rightarrow> Inr obj1
           | _ \<Rightarrow> Inl (TypeError ''Cannot create property created on a primitive''))"

definition insertOne ::
  "builtins \<Rightarrow> collection \<Rightarrow> jsnum \<Rightarrow> jsval \<Rightarrow> (collection \<times> jsval) outcome" where
  "insertOne rt c now doc =
     (if typeof doc \<noteq> ''object'' then Inl (TypeError ''Document needs to be an object'', c)
      else case doc of
        Obj props \<Rightarrow>
          (let obj = (if \<not> disableMeta c \<and> typeof (js_get doc ''meta'') = ''undefined''
                      then set_own ''meta''
                             (Obj [(''revision'', Num (Fin 0)), (''created'', Num (Fin 0))]) props
                      else props)
           in case add rt c (Obj obj) of
                Inl e \<Rightarrow> Inl e
              | Inr (c1, Obj added) \<Rightarrow>
                  (case insertMeta c1 now added of
                     Inl e \<Rightarrow> Inl (e, c1)
                   | Inr stamped \<Rightarrow>
                       Inr (c1\<lparr>data := butlast (data c1) @ [stamped]\<rparr>, Obj stamped))
              | Inr (c1, v) \<Rightarrow> Inr (c1, v))
      | _ \<Rightarrow> Inl (TypeError ''Object cannot be null'', c))"

text \<open>\<open>insert\<close> of a single document is \<open>insertOne\<close>.\<close>

definition insert ::
  "builtins \<Rightarrow> collection \<Rightarrow> jsnum \<Rightarrow> jsval \<Rightarrow> (collection \<times> jsval) outcome" where
  "insert rt c now doc = insertOne rt c now doc"


subsection \<open>Collection.remove\<close>

text \<open>
  \<open>remove\<close> throws before its \<open>try\<close> block and returns \<open>null\<close> for every error raised
  inside it, leaving the state as it was when the error was raised.
\<close>

fun remove_unique :: "builtins \<Rightarrow> jsval \<Rightarrow> string list \<Rightarrow> collection \<Rightarrow> collection outcome" where
  "remove_unique rt doc [] c = Inr c"
| "remove_unique rt doc (key # keys) c =
     (if js_get doc key \<noteq> Null \<and> typeof (js_get doc key) \<noteq> ''undefined'' then
        (case dict_slot (constraints_unique c) key of
           Missing \<Rightarrow> remove_unique rt doc keys c
         | Inherited b \<Rightarrow> Inl (TypeError ''index.remove is not a function'', c)
         | Own ui \<Rightarrow>
             (case UniqueIndex_remove rt ui (js_get doc key) of
                Inl e \<Rightarrow> Inl (e, c)
              | Inr ui' \<Rightarrow>
                  remove_unique rt doc keys
                    (c\<lparr>constraints_unique := set_own key ui' (constraints_unique c)\<rparr>)))
      else remove_unique rt doc keys c)"

fun adaptive_remove_each ::
  "builtins \<Rightarrow> int \<Rightarrow> string list \<Rightarrow> collection \<Rightarrow> collection outcome" where
  "adaptive_remove_each rt position [] c = Inr c"
| "adaptive_remove_each rt position (key # keys) c =
     (case adaptiveBinaryIndexRemove rt c position key False of
        Inl e \<Rightarrow> Inl (e, c)
      | Inr c' \<Rightarrow> adaptive_remove_each rt position keys c')"

definition remove_try ::
  "builtins \<Rightarrow> collection \<Rightarrow> doc \<Rightarrow> (collection \<times> jsval) outcome option" where
  "remove_try rt c props =
     (case get rt c (js_get (Obj props) ''$loki'') True of
        None \<Rightarrow> None
      | Some (Inl (e, c1)) \<Rightarrow> Some (Inr (c1, Null))
      | Some (Inr (c1, FoundAt d position)) \<Rightarrow>
          (case remove_unique rt (Obj props) (uniqueNames c1) c1 of
             Inl (e, c2) \<Rightarrow> Some (Inr (c2, Null))
           | Inr c2 \<Rightarrow>
               (case (if adaptiveBinaryIndices c2
                      then adaptive_remove_each rt position (map fst (binaryIndices c2)) c2
                      else Inr (flagBinaryIndexesDirty c2)) of
                  Inl (e, c3) \<Rightarrow> Some (Inr (c3, Null))
                | Inr c3 \<Rightarrow>
                    Some (Inr (c3\<lparr>data := splice_remove1 (data c3) position,
                                    idIndex := map_option (\<lambda>ids. splice_remove1 ids position)
                                                 (idIndex c3),
                                    dirty := True\<rparr>,
                               Obj (delete_own ''meta'' (delete_own ''$loki'' props))))))
      | Some (Inr (c1, _)) \<Rightarrow> Some (Inr (c1, Null)))"

definition remove ::
  "builtins \<Rightarrow> collection \<Rightarrow> jsval \<Rightarrow> (collection \<times> jsval) outcome option" where
  "remove rt c doc0 =
     (case (if typeof doc0 = ''number''
            then (case get rt c doc0 False of
                    None \<Rightarrow> None
                  | Some (Inl e) \<Rightarrow> Some (Inl e)
                  | Some (Inr (c1, Found d)) \<Rightarrow> Some (Inr (c1, d))
                  | Some (Inr (c1, _)) \<Rightarrow> Some (Inr (c1, Null)))
            else Some (Inr (c, doc0))) of
        None \<Rightarrow> None
      | Some (Inl e) \<Rightarrow> Some (Inl e)
      | Some (Inr (c1, doc)) \<Rightarrow>
          (if typeof doc \<noteq> ''object'' then Some (Inl (Error ''Parameter is not an object'', c1))
           else case doc of
             Obj props \<Rightarrow>
               (if \<not> has_own props ''$loki''
                then Some (Inl (Error ''Object is not a document stored in the collection'', c1))
                else remove_try rt c1 props)
           | _ \<Rightarrow> Some (Inl (TypeError ''Cannot convert undefined or null to object'', c1))))"

subsection \<open>Collection.ensureIndex and the constructor\<close>

text \<open>
  \<open>ensureIndex(property)\<close>, called without \<open>force\<close>, builds the index of a property by
  sorting all positions with a comparer made of \<open>lt\<close> and \<open>gt\<close>.  The language's sort is
  stable; it is modelled as the stable insertion sort.
\<close>

definition prepareFullDocIndex :: "collection \<Rightarrow> int list" where
  "prepareFullDocIndex c = map int [0 ..< length (data c)]"

definition wrappedComparer :: "builtins \<Rightarrow> string \<Rightarrow> doc list \<Rightarrow> int \<Rightarrow> int \<Rightarrow> int" where
  "wrappedComparer rt prop rcd a b =
     (let val1 = (if isDeepProperty prop then getIn (rcd_at rcd (Some a)) prop True
                  else js_get (rcd_at rcd (Some a)) prop);
          val2 = (if isDeepProperty prop then getIn (rcd_at rcd (Some b)) prop True
                  else js_get (rcd_at rcd (Some b)) prop)
      in if \<not> strict_eq val1 val2 then
           (if ltHelper rt val1 val2 False then - 1
            else if gtHelper rt val1 val2 False then 1 else 0)
         else 0)"

fun insert_sorted :: "(int \<Rightarrow> int \<Rightarrow> int) \<Rightarrow> int \<Rightarrow> int list \<Rightarrow> int list" where
  "insert_sorted cmp x [] = [x]"
| "insert_sorted cmp x (y # ys) =
     (if cmp x y \<le> 0 then x # y # ys else y # insert_sorted cmp x ys)"

definition stable_sort :: "(int \<Rightarrow> int \<Rightarrow> int) \<Rightarrow> int list \<Rightarrow> int list" where
  "stable_sort cmp xs = foldr (insert_sorted cmp) xs []"

definition ensureIndex :: "builtins \<Rightarrow> collection \<Rightarrow> string \<Rightarrow> collection" where
  "ensureIndex rt c property =
     (case dict_slot (binaryIndices c) property of
        Inherited b \<Rightarrow> c
      | Own bi \<Rightarrow>
          (if \<not> idx_dirty bi then c
           else if adaptiveBinaryIndices c then c
           else c\<lparr>binaryIndices :=
                    set_own property
                      \<lparr>idx_name = property, idx_dirty = False,
                       idx_values = stable_sort (wrappedComparer rt property (data c))
                                      (prepareFullDocIndex c)\<rparr>
                      (binaryIndices c),
                  dirty := True\<rparr>)
      | Missing \<Rightarrow>
          c\<lparr>binaryIndices :=
               set_own property
                 \<lparr>idx_name = property, idx_dirty = False,
                  idx_values = stable_sort (wrappedComparer rt property (data c))
                                 (prepareFullDocIndex c)\<rparr>
                 (binaryIndices c),
             dirty := True\<rparr>)"

text \<open>
  \<open>new Collection(name, options)\<close> with the options \<open>unique\<close>, \<open>indices\<close>,
  \<open>adaptiveBinaryIndices\<close> and \<open>disableMeta\<close>.
\<close>

definition Collection :: "builtins \<Rightarrow> string list \<Rightarrow> string list \<Rightarrow> bool \<Rightarrow> bool \<Rightarrow> collection" where
  "Collection rt unique indices adaptive noMeta =
     foldl (ensureIndex rt)
       \<lparr>data = [], idIndex = None, binaryIndices = [], uniqueNames = unique,
        constraints_unique = [], maxId = Num (Fin 0), adaptiveBinaryIndices = adaptive,
        disableMeta = noMeta, dirty = True\<rparr>
       indices"

section \<open>The Resultset\<close>

text \<open>
  A resultset holds its collection, the positions that passed the filters so far and the
  flag that says whether a filter has been applied.  A position read from outside an
  index is \<open>undefined\<close>, here \<open>None\<close>.
\<close>

record resultset =
  coll :: collection
  filteredrows :: "int option list"
  filterInitialized :: bool

definition Resultset :: "collection \<Rightarrow> resultset" where
  "Resultset c = \<lparr>coll = c, filteredrows = [], filterInitialized = False\<rparr>"

definition chain :: "collection \<Rightarrow> resultset" where
  "chain c = Resultset c"

subsection \<open>Resultset.data\<close>

text \<open>\<open>data()\<close> called without options, on a collection that does not clone.\<close>

definition Resultset_data :: "resultset \<Rightarrow> jsval list \<times> resultset" where
  "Resultset_data rs =
     (if \<not> filterInitialized rs \<and> length (filteredrows rs) = 0
      then (map Obj (data (coll rs)), rs)
      else
        let rs1 = (if \<not> filterInitialized rs then rs\<lparr>filterInitialized := True\<rparr> else rs)
        in (map (rcd_at (data (coll rs1))) (filteredrows rs1), rs1))"

subsection \<open>Resultset.find\<close>

text \<open>
  The operator functions of \<open>LokiOps\<close> for the operators above.  A linear scan for
  \<open>$in\<close> does not use \<open>LokiOps.$in\<close>: it turns the array into a \<open>Set\<close> and asks
  \<open>has\<close> (the operator \<open>$inSet\<close>), which unlike \<open>===\<close> finds \<open>NaN\<close>.
\<close>

definition same_value_zero :: "jsval \<Rightarrow> jsval \<Rightarrow> bool" where
  "same_value_zero a b = (strict_eq a b \<or> (a = Num NaN \<and> b = Num NaN))"

fun LokiOps :: "builtins \<Rightarrow> query_op \<Rightarrow> jsval \<Rightarrow> bool" where
  "LokiOps rt (OpEq b) a = strict_eq a b"
| "LokiOps rt (OpAeq b) a = loose_eq rt a b"
| "LokiOps rt (OpNe b) a = (if b = Num NaN then a \<noteq> Num NaN else \<not> strict_eq a b)"
| "LokiOps rt (OpDteq b) a = aeqHelper rt a b"
| "LokiOps rt (OpGt b) a = gtHelper rt a b False"
| "LokiOps rt (OpGte b) a = gtHelper rt a b True"
| "LokiOps rt (OpLt b) a = ltHelper rt a b False"
| "LokiOps rt (OpLte b) a = ltHelper rt a b True"
| "LokiOps rt (OpBetween vals) a =
     (if a = Undefined \<or> a = Null then False
      else gtHelper rt a (val_at vals 0) True \<and> ltHelper rt a (val_at vals 1) True)"
| "LokiOps rt (OpIn b) a = (\<exists>x \<in> set b. strict_eq a x)"

text \<open>\<open>indexedOps[operator]\<close>: absent, \<open>true\<close>, or for \<open>$eq\<close> the function run as a
  second pass over the range.\<close>

fun indexedOps :: "query_op \<Rightarrow> bool" where
  "indexedOps (OpNe _) = False"
| "indexedOps _ = True"

fun second_pass :: "query_op \<Rightarrow> bool" where
  "second_pass (OpEq _) = True"
| "second_pass _ = False"

fun is_in :: "query_op \<Rightarrow> bool" where
  "is_in (OpIn _) = True"
| "is_in _ = False"

text \<open>
  \<open>dotSubScan\<close> walks a split path; \<open>path in root\<close> sees inherited members too and is
  a \<open>TypeError\<close> on \<open>null\<close>.
\<close>

definition scan_element :: "jsval \<Rightarrow> string \<Rightarrow> error + jsval" where
  "scan_element rootObj path =
     (if typeof rootObj = ''object'' then
        (case rootObj of
           Obj props \<Rightarrow>
             Inr (if has_own props path \<or> object_prototype_member path \<noteq> Undefined
                  then js_get rootObj path else Undefined)
         | _ \<Rightarrow> Inl (TypeError ''Cannot use in operator to search for a key in null''))
      else Inr Undefined)"

fun dotSubScan :: "jsval \<Rightarrow> string list \<Rightarrow> (jsval \<Rightarrow> bool) \<Rightarrow> error + bool" where
  "dotSubScan rootObj [] fn = map_sum id fn (scan_element rootObj ''undefined'')"
| "dotSubScan rootObj [path] fn = map_sum id fn (scan_element rootObj path)"
| "dotSubScan rootObj (path # paths) fn =
     (case scan_element rootObj path of
        Inl e \<Rightarrow> Inl e
      | Inr element \<Rightarrow> dotSubScan element paths fn)"

text \<open>The loops of \<open>find\<close>: each keeps the rows that pass and stops at the first one
  when \<open>firstOnly\<close> is set.\<close>

fun scan_rows ::
  "(int option \<Rightarrow> error + bool) \<Rightarrow> bool \<Rightarrow> int option list \<Rightarrow> int option list
     \<Rightarrow> error + int option list" where
  "scan_rows test firstOnly result [] = Inr result"
| "scan_rows test firstOnly result (rowIdx # rows) =
     (case test rowIdx of
        Inl e \<Rightarrow> Inl e
      | Inr True \<Rightarrow>
          (if firstOnly then Inr (result @ [rowIdx])
           else scan_rows test firstOnly (result @ [rowIdx]) rows)
      | Inr False \<Rightarrow> scan_rows test firstOnly result rows)"

definition row_test ::
  "builtins \<Rightarrow> doc list \<Rightarrow> string \<Rightarrow> query_op \<Rightarrow> int option \<Rightarrow> error + bool" where
  "row_test rt t property op rowIdx =
     (let rcrd = rcd_at t rowIdx;
          fn = (case op of OpIn b \<Rightarrow> (\<lambda>a. \<exists>x \<in> set b. same_value_zero a x)
                 | _ \<Rightarrow> LokiOps rt op)
      in if isDeepProperty property then dotSubScan rcrd (split_dot property) fn
         else (case rcrd of
                 Obj props \<Rightarrow> Inr (fn (js_get rcrd property))
               | _ \<Rightarrow> Inl (TypeError ''Cannot read properties of undefined'')))"

text \<open>A query: no condition at all, or one property with one operator.  The shorthand
  \<open>{property: value}\<close> is the operator \<open>$eq\<close>.\<close>

datatype query = GetAll | Field string query_op

definition Resultset_find ::
  "builtins \<Rightarrow> resultset \<Rightarrow> query \<Rightarrow> bool \<Rightarrow> (error \<times> resultset) + resultset" where
  "Resultset_find rt rs q firstOnly =
     (if length (data (coll rs)) = 0
      then Inr (rs\<lparr>filteredrows := [], filterInitialized := True\<rparr>)
      else case q of
        GetAll \<Rightarrow>
          Inr (if firstOnly then
                 (if filterInitialized rs then rs\<lparr>filteredrows := take 1 (filteredrows rs)\<rparr>
                  else rs\<lparr>filteredrows := [Some 0], filterInitialized := True\<rparr>)
               else rs)
      | Field property op \<Rightarrow>
          (let usingDotNotation = isDeepProperty property;
               doIndexCheck = \<not> filterInitialized rs;
               searchByIndex = (doIndexCheck
                                \<and> dict_slot (binaryIndices (coll rs)) property \<noteq> Missing
                                \<and> indexedOps op);
               rs1 = (if searchByIndex \<and> \<not> adaptiveBinaryIndices (coll rs)
                      then rs\<lparr>coll := ensureIndex rt (coll rs) property\<rparr> else rs);
               t = data (coll rs1)
           in if filterInitialized rs1 then
                (case scan_rows (row_test rt t property op) firstOnly [] (filteredrows rs1) of
                   Inl e \<Rightarrow> Inl (e, rs1)
                 | Inr result \<Rightarrow> Inr (rs1\<lparr>filteredrows := result\<rparr>))
              else if \<not> searchByIndex then
                (case scan_rows (row_test rt t property op) firstOnly []
                        (map (\<lambda>i. Some (int i)) [0 ..< length t]) of
                   Inl e \<Rightarrow> Inl (e, rs1)
                 | Inr result \<Rightarrow>
                     Inr (rs1\<lparr>filteredrows := result, filterInitialized := True\<rparr>))
              else
                (case calculateRange rt (coll rs1) op property of
                   Inl e \<Rightarrow> Inl (e, rs1)
                 | Inr segm \<Rightarrow>
                     (let index = (case map_of (binaryIndices (coll rs1)) property of
                                     Some bi \<Rightarrow> idx_values bi | None \<Rightarrow> []);
                          places = (case segm of
                                      Range lo hi \<Rightarrow> (if is_in op then [lo, hi] else [lo .. hi])
                                    | Places ps \<Rightarrow> ps);
                          test = (\<lambda>row. Inr (\<not> second_pass op
                                    \<or> LokiOps rt op (getIn (rcd_at t row) property usingDotNotation)))
                      in case scan_rows test firstOnly [] (map (js_nth index) places) of
                           Inl e \<Rightarrow> Inl (e, rs1)
                         | Inr result \<Rightarrow>
                             Inr (rs1\<lparr>filteredrows := result, filterInitialized := True\<rparr>)))))"

subsection \<open>Resultset.eqJoin\<close>

text \<open>
  The lookup table of \<open>eqJoin\<close> is an object literal: it has \<open>Object.prototype\<close> as
  prototype, so a read finds inherited members, and an assignment to the key
  \<open>__proto__\<close> replaces the prototype instead of adding an entry.
\<close>

record join_map =
  own_entries :: "(string \<times> jsval) list"
  prototype :: jsval

definition new_join_map :: join_map where
  "new_join_map = \<lparr>own_entries = [], prototype = Obj []\<rparr>"

definition has_proto_accessor :: "join_map \<Rightarrow> bool" where
  "has_proto_accessor m =
     (\<not> has_own (own_entries m) ''__proto__''
      \<and> (case prototype m of
           Null \<Rightarrow> False
         | Obj props \<Rightarrow> \<not> has_own props ''__proto__''
         | _ \<Rightarrow> True))"

definition join_map_set :: "join_map \<Rightarrow> string \<Rightarrow> jsval \<Rightarrow> join_map" where
  "join_map_set m key v =
     (if key = ''__proto__'' \<and> has_proto_accessor m then
        (case v of
           Obj props \<Rightarrow> m\<lparr>prototype := v\<rparr>
         | Builtin b \<Rightarrow> m\<lparr>prototype := v\<rparr>
         | Null \<Rightarrow> m\<lparr>prototype := v\<rparr>
         | _ \<Rightarrow> m)
      else m\<lparr>own_entries := set_own key v (own_entries m)\<rparr>)"

definition join_map_get :: "join_map \<Rightarrow> string \<Rightarrow> jsval" where
  "join_map_get m key =
     (case map_of (own_entries m) key of
        Some v \<Rightarrow> v
      | None \<Rightarrow>
          (if key = ''__proto__'' \<and> has_proto_accessor m then prototype m
           else (case prototype m of
                   Builtin b \<Rightarrow> object_prototype_member key
                 | p \<Rightarrow> js_get p key)))"

datatype join_source =
  JoinCollection collection | JoinResultset resultset | JoinArray "jsval list"

datatype join_key = KeyField string | KeyFunction "jsval \<Rightarrow> jsval"

definition join_key_of :: "join_key \<Rightarrow> jsval \<Rightarrow> error + jsval" where
  "join_key_of k row =
     (case k of
        KeyFunction f \<Rightarrow> Inr (f row)
      | KeyField name \<Rightarrow>
          (if is_nullish row then Inl (TypeError ''Cannot read properties of undefined'')
           else Inr (js_get row name)))"

fun build_join_map ::
  "builtins \<Rightarrow> join_key \<Rightarrow> join_map \<Rightarrow> jsval list \<Rightarrow> error + join_map" where
  "build_join_map rt rightJoinKey joinMap [] = Inr joinMap"
| "build_join_map rt rightJoinKey joinMap (row # rows) =
     (case join_key_of rightJoinKey row of
        Inl e \<Rightarrow> Inl e
      | Inr key \<Rightarrow>
          build_join_map rt rightJoinKey (join_map_set joinMap (ToString rt key) row) rows)"

definition default_mapFun :: "jsval \<Rightarrow> jsval \<Rightarrow> jsval" where
  "default_mapFun left right = Obj [(''left'', left), (''right'', right)]"

fun join_rows ::
  "builtins \<Rightarrow> join_key \<Rightarrow> join_map \<Rightarrow> (jsval \<Rightarrow> jsval \<Rightarrow> jsval) \<Rightarrow> jsval list
     \<Rightarrow> error + jsval list" where
  "join_rows rt leftJoinKey joinMap mapFun [] = Inr []"
| "join_rows rt leftJoinKey joinMap mapFun (left # lefts) =
     (case join_key_of leftJoinKey left of
        Inl e \<Rightarrow> Inl e
      | Inr key \<Rightarrow>
          (let found = join_map_get joinMap (ToString rt key);
               row = mapFun left (if falsy found then Obj [] else found)
           in case join_rows rt leftJoinKey joinMap mapFun lefts of
                Inl e \<Rightarrow> Inl e
              | Inr rows \<Rightarrow> Inr (row # rows)))"

text \<open>\<open>insert\<close> of an array inserts its elements in turn; \<open>clock i\<close> is the reading
  of the clock at the \<open>i\<close>-th of them.\<close>

fun insert_each ::
  "builtins \<Rightarrow> (nat \<Rightarrow> jsnum) \<Rightarrow> nat \<Rightarrow> collection \<Rightarrow> jsval list \<Rightarrow> collection outcome" where
  "insert_each rt clock i c [] = Inr c"
| "insert_each rt clock i c (d # ds) =
     (case insertOne rt c (clock i) d of
        Inl e \<Rightarrow> Inl e
      | Inr (c', _) \<Rightarrow> insert_each rt clock (Suc i) c' ds)"

definition eqJoin_rows ::
  "builtins \<Rightarrow> resultset \<Rightarrow> join_source \<Rightarrow> join_key \<Rightarrow> join_key
     \<Rightarrow> (jsval \<Rightarrow> jsval \<Rightarrow> jsval) option \<Rightarrow> error + jsval list" where
  "eqJoin_rows rt rs joinData leftJoinKey rightJoinKey mapFun =
     (let leftData = fst (Resultset_data rs);
          rightData = (case joinData of
                         JoinCollection c \<Rightarrow> fst (Resultset_data (chain c))
                       | JoinResultset r \<Rightarrow> fst (Resultset_data r)
                       | JoinArray rows \<Rightarrow> rows)
      in case build_join_map rt rightJoinKey new_join_map rightData of
           Inl e \<Rightarrow> Inl e
         | Inr joinMap \<Rightarrow>
             join_rows rt leftJoinKey joinMap
               (case mapFun of Some f \<Rightarrow> f | None \<Rightarrow> default_mapFun) leftData)"

definition eqJoin ::
  "builtins \<Rightarrow> (nat \<Rightarrow> jsnum) \<Rightarrow> resultset \<Rightarrow> join_source \<Rightarrow> join_key \<Rightarrow> join_key
     \<Rightarrow> (jsval \<Rightarrow> jsval \<Rightarrow> jsval) option \<Rightarrow> error + resultset" where
  "eqJoin rt clock rs joinData leftJoinKey rightJoinKey mapFun =
     (case eqJoin_rows rt rs joinData leftJoinKey rightJoinKey mapFun of
        Inl e \<Rightarrow> Inl e
      | Inr result \<Rightarrow>
          (case insert_each rt clock 0 (Collection rt [] [] True False) result of
             Inl (e, c) \<Rightarrow> Inl e
           | Inr c \<Rightarrow> Inr \<lparr>coll = c, filteredrows = [], filterInitialized = False\<rparr>))"

section \<open>Invariants of a collection\<close>






section \<open>A runtime for the worked examples\<close>

text \<open>
  The examples need the runtime's conversions at a few concrete strings and numbers.
  \<open>sample_runtime\<close> reads the empty string as 0, a string of decimal digits as the
  number it writes and every other string as \<open>NaN\<close>, prints an integer in decimal, and
  lets \<open>parseInt\<close> read the digits a string starts with.  It agrees with the language on
  the strings and numbers the examples use (words such as \<open>a\<close> or \<open>fr\<close>, digit strings,
  small non-negative integers); strings with a sign, a fraction, an exponent or blanks
  do not occur in them.
\<close>

definition is_digit :: "char \<Rightarrow> bool" where
  "is_digit ch = (CHR ''0'' \<le> ch \<and> ch \<le> CHR ''9'')"

fun digits_value :: "nat \<Rightarrow> string \<Rightarrow> nat" where
  "digits_value acc [] = acc"
| "digits_value acc (ch # cs) = digits_value (10 * acc + (of_char ch - 48)) cs"

definition sample_Number :: "string \<Rightarrow> jsnum" where
  "sample_Number s =
     (if s = [] then Fin 0
      else if list_all is_digit s then Fin (of_nat (digits_value 0 s))
      else NaN)"

definition sample_parseInt :: "string \<Rightarrow> jsnum" where
  "sample_parseInt s =
     (case takeWhile is_digit s of
        [] \<Rightarrow> NaN
      | ds \<Rightarrow> Fin (of_nat (digits_value 0 ds)))"

fun digits_of :: "nat \<Rightarrow> string" where
  "digits_of n =
     (if n < 10 then [char_of (48 + n)]
      else digits_of (n div 10) @ [char_of (48 + n mod 10)])"

definition sample_toString :: "jsnum \<Rightarrow> string" where
  "sample_toString n =
     (case n of
        NaN \<Rightarrow> ''NaN''
      | PosInf \<Rightarrow> ''Infinity''
      | NegInf \<Rightarrow> ''-Infinity''
      | Fin r \<Rightarrow> (if r < 0 then ''-'' else []) @ digits_of (nat \<lfloor>\<bar>r\<bar>\<rfloor>))"

definition sample_runtime :: builtins where
  "sample_runtime =
     \<lparr>Number_of_string = sample_Number,
      string_of_Number = sample_toString,
      string_of_Builtin = (\<lambda>n. ''function '' @ n @ ''() { [native code] }''),
      parseInt_of_string = sample_parseInt\<rparr>"

text \<open>
  The examples: a collection with a unique constraint on \<open>name\<close> and an adaptive binary
  index on \<open>age\<close>, and the states after inserting three documents at the clock readings
  100, 200 and 300.
\<close>

definition people0 :: collection where
  "people0 = Collection sample_runtime [''name''] [''age''] True False"

definition people1 :: collection where
  "people1 = state_of (insertOne sample_runtime people0 (Fin 100)
                (Obj [(''name'', Str ''a''), (''age'', Num (Fin 30))]))"

definition people2 :: collection where
  "people2 = state_of (insertOne sample_runtime people1 (Fin 200)
                (Obj [(''name'', Str ''b''), (''age'', Num (Fin 25))]))"

definition people3 :: collection where
  "people3 = state_of (insertOne sample_runtime people2 (Fin 300)
                (Obj [(''name'', Str ''c''), (''age'', Num (Fin 40))]))"

definition stored_a :: jsval where
  "stored_a =
     Obj [(''name'', Str ''a''), (''age'', Num (Fin 30)),
          (''meta'', Obj [(''revision'', Num (Fin 0)), (''created'', Num (Fin 100)),
                          (''version'', Num (Fin 0))]),
          (''$loki'', Num (Fin 1))]"

text \<open>
  A collection whose only document has the join key \<open>constructor\<close>, the name of a member
  of \<open>Object.prototype\<close>.
\<close>

definition keyed0 :: collection where
  "keyed0 = Collection sample_runtime [] [] True False"

definition keyed1 :: collection where
  "keyed1 = state_of (insertOne sample_runtime keyed0 (Fin 100)
               (Obj [(''k'', Str ''constructor'')]))"

text \<open>A collection with an adaptive binary index on \<open>meta.created\<close>, the time stamp
  that \<open>insertOne\<close> writes; one document is inserted at time 3, a second at time 5.\<close>

definition stamped0 :: collection where
  "stamped0 = Collection sample_runtime [] [''meta.created''] True False"

definition stamped1 :: collection where
  "stamped1 = state_of (insert sample_runtime stamped0 (Fin 3) (Obj [(''name'', Str ''a'')]))"

definition stamped2 :: collection where
  "stamped2 = state_of (insert sample_runtime stamped1 (Fin 5) (Obj [(''name'', Str ''b'')]))"

definition index_values :: "collection \<Rightarrow> (string \<times> int list) list" where
  "index_values c = map (\<lambda>(name, bi). (name, idx_values bi)) (binaryIndices c)"

text \<open>\<open>find(q).find(q)\<close>: the second call is made on the resultset the first returns.\<close>

definition find_twice ::
  "builtins \<Rightarrow> resultset \<Rightarrow> query \<Rightarrow> (error \<times> resultset) + resultset" where
  "find_twice rt rs q =
     (case Resultset_find rt rs q False of
        Inl e \<Rightarrow> Inl e
      | Inr rs1 \<Rightarrow> Resultset_find rt rs1 q False)"

definition rows_of :: "(error \<times> resultset) + resultset \<Rightarrow> error + int option list" where
  "rows_of r = map_sum fst filteredrows r"

section \<open>Properties of the comparator\<close>

text \<open>
  The comparator orders values by a key: the tier, then for a value of tier 9 whether
  \<open>Number\<close> reads it as a number, then that number or else its string.  The keys are
  linearly ordered, which gives the comparator its order properties.
\<close>

fun num_key :: "jsnum \<Rightarrow> nat \<times> rat" where
  "num_key NaN = (3, 0)"
| "num_key NegInf = (0, 0)"
| "num_key (Fin r) = (1, r)"
| "num_key PosInf = (2, 0)"

definition cmp_key :: "builtins \<Rightarrow> jsval \<Rightarrow> nat \<times> (nat \<times> rat) \<times> string" where
  "cmp_key rt v =
     (if edge_tier v \<noteq> 9 then (edge_tier v, (0, 0), [])
      else if ToNumber rt v \<noteq> NaN then (9, num_key (ToNumber rt v), [])
      else (9, (3, 0), ToString rt v))"

text \<open>The six edge values of the comparator.\<close>

definition edge_values :: "jsval set" where
  "edge_values = {Undefined, Null, Num NaN, Bool False, Bool True, Str []}"

lemma num_lt_key: "a \<noteq> NaN \<Longrightarrow> b \<noteq> NaN \<Longrightarrow> num_lt a b = (num_key a < num_key b)"
  by (cases a; cases b) auto

lemma num_key_inj: "a \<noteq> NaN \<Longrightarrow> b \<noteq> NaN \<Longrightarrow> (num_key a = num_key b) = (a = b)"
  by (cases a; cases b) auto

lemma num_key_fst: "a \<noteq> NaN \<Longrightarrow> fst (num_key a) < 3"
  by (cases a) auto

lemma tier9_edge: "edge_tier v \<noteq> 9 \<Longrightarrow> edge_case v w" "edge_tier v \<noteq> 9 \<Longrightarrow> edge_case w v"
  by (cases v; auto simp: edge_case_def split: if_splits)+

lemma nonnum_prim:
  "edge_tier v = 9 \<Longrightarrow> ToNumber rt v = NaN \<Longrightarrow> ToPrimitive rt v = Str (ToString rt v)"
  by (cases v) (auto split: if_splits)

lemma js_lt_nonnum:
  assumes "edge_tier a = 9" "ToNumber rt a = NaN" "edge_tier b = 9" "ToNumber rt b = NaN"
  shows "js_lt rt a b = (ToString rt a < ToString rt b)"
  using assms by (simp add: js_lt_def nonnum_prim)

lemma loose_eq_nonnum:
  assumes "edge_tier a = 9" "ToNumber rt a = NaN" "edge_tier b = 9" "ToNumber rt b = NaN"
  shows "loose_eq rt a b \<Longrightarrow> ToString rt a = ToString rt b"
  using assms by (cases a; cases b) (auto split: if_splits)

lemma cmp_key_tier: "fst (cmp_key rt v) = edge_tier v"
  by (simp add: cmp_key_def)

lemma prod_less_fst:
  fixes x y :: "('a::order) \<times> ('b::ord)"
  shows "fst x \<noteq> fst y \<Longrightarrow> (x < y) = (fst x < fst y)"
  by (auto simp: less_prod_def less_le)

lemma ltHelper_key:
  "ltHelper rt a b e = (cmp_key rt a < cmp_key rt b \<or> (cmp_key rt a = cmp_key rt b \<and> e))"
proof (cases "edge_tier a \<noteq> 9 \<or> edge_tier b \<noteq> 9")
  case True
  then have ec: "edge_case a b" using tier9_edge by blast
  show ?thesis
  proof (cases "edge_tier a = edge_tier b")
    case same: True
    with True have "cmp_key rt a = cmp_key rt b" by (simp add: cmp_key_def)
    with True ec same show ?thesis by (simp add: ltHelper_def)
  next
    case diff: False
    then have "cmp_key rt a \<noteq> cmp_key rt b" using cmp_key_tier by metis
    moreover have "(cmp_key rt a < cmp_key rt b) = (edge_tier a < edge_tier b)"
      using diff prod_less_fst[of "cmp_key rt a" "cmp_key rt b"] by (simp add: cmp_key_tier)
    ultimately show ?thesis using True ec diff by (simp add: ltHelper_def)
  qed
next
  case False
  then have t: "edge_tier a = 9" "edge_tier b = 9" by auto
  show ?thesis
  proof (cases "ToNumber rt a = NaN")
    case na: True
    show ?thesis
    proof (cases "ToNumber rt b = NaN")
      case nb: True
      have k: "cmp_key rt a = (9, (3, 0), ToString rt a)" "cmp_key rt b = (9, (3, 0), ToString rt b)"
        using t na nb by (simp_all add: cmp_key_def)
      have "ltHelper rt a b e =
          (ToString rt a < ToString rt b \<or> (ToString rt a = ToString rt b \<and> e))"
        using t na nb loose_eq_nonnum[OF t(1) na t(2) nb]
        by (auto simp: ltHelper_def js_gt_def js_lt_nonnum)
      then show ?thesis by (simp add: k less_prod_def)
    next
      case nb: False
      have "cmp_key rt b < cmp_key rt a"
        using t na nb num_key_fst[OF nb] by (simp add: cmp_key_def less_prod_def)
      then have "\<not> cmp_key rt a < cmp_key rt b" "cmp_key rt a \<noteq> cmp_key rt b" by auto
      then show ?thesis using t na nb by (simp add: ltHelper_def)
    qed
  next
    case na: False
    show ?thesis
    proof (cases "ToNumber rt b = NaN")
      case nb: True
      have "cmp_key rt a < cmp_key rt b"
        using t na nb num_key_fst[OF na] by (simp add: cmp_key_def less_prod_def)
      then show ?thesis using t na nb by (simp add: ltHelper_def)
    next
      case nb: False
      have k: "cmp_key rt a = (9, num_key (ToNumber rt a), [])"
        "cmp_key rt b = (9, num_key (ToNumber rt b), [])"
        using t na nb by (simp_all add: cmp_key_def)
      show ?thesis
        using t na nb num_lt_key[OF na nb] num_lt_key[OF nb na] num_key_inj[OF na nb]
        by (auto simp: ltHelper_def k less_prod_def Let_def prod_eq_iff)
    qed
  qed
qed

lemma gtHelper_lt: "gtHelper rt a b e = ltHelper rt b a e"
proof -
  have ec: "edge_case a b = edge_case b a" by (auto simp: edge_case_def)
  have le: "loose_eq rt a b = loose_eq rt b a" for a b
    by (cases a; cases b) (auto simp: num_eq_def)
  show ?thesis
    unfolding gtHelper_def ltHelper_def js_gt_def Let_def ec le[of a b]
    by (auto simp: eq_commute)
qed

lemma strict_eq_key: "strict_eq a b \<Longrightarrow> cmp_key rt a = cmp_key rt b"
  by (cases a; cases b) (auto simp: cmp_key_def num_eq_def split: jsval.splits)

lemma aeqHelper_key: "aeqHelper rt a b = (cmp_key rt a = cmp_key rt b)"
proof (cases "strict_eq a b")
  case True
  then show ?thesis using strict_eq_key by (simp add: aeqHelper_def)
next
  case ns: False
  show ?thesis
  proof (cases "edge_tier a \<noteq> 9 \<or> edge_tier b \<noteq> 9")
    case True
    then have ec: "edge_case a b" using tier9_edge by blast
    have "(cmp_key rt a = cmp_key rt b) = (edge_tier a = edge_tier b)"
      using True cmp_key_tier[of rt a] cmp_key_tier[of rt b]
      by (auto simp: cmp_key_def)
    then show ?thesis using ns True ec by (simp add: aeqHelper_def)
  next
    case False
    then have t: "edge_tier a = 9" "edge_tier b = 9" by auto
    show ?thesis
      using ns t num_key_inj[of "ToNumber rt a" "ToNumber rt b"]
        num_key_fst[of "ToNumber rt a"] num_key_fst[of "ToNumber rt b"]
      by (auto simp: aeqHelper_def cmp_key_def Let_def num_eq_def prod_eq_iff)
  qed
qed

lemma ltHelper_strict: "ltHelper rt a b False = (cmp_key rt a < cmp_key rt b)"
  by (simp add: ltHelper_key)

lemma ltHelper_weak: "ltHelper rt a b True = (cmp_key rt a \<le> cmp_key rt b)"
  by (auto simp: ltHelper_key)

lemma gtHelper_strict: "gtHelper rt a b False = (cmp_key rt b < cmp_key rt a)"
  by (simp add: gtHelper_lt ltHelper_key)

lemma gtHelper_weak: "gtHelper rt a b True = (cmp_key rt b \<le> cmp_key rt a)"
  by (auto simp: gtHelper_lt ltHelper_key)

lemma edge_values_tier: "(v \<in> edge_values) = (edge_tier v \<noteq> 9)"
  by (cases v) (auto simp: edge_values_def)

text \<open>
  Claim C1, as the code has it.  On the values whose conversion to a number and to a
  string is defined (every value but an object with an own \<open>toString\<close> or \<open>valueOf\<close>,
  where the comparator may throw), the comparator is a total order up to its own equality:
  of \<open>lt\<close>, \<open>aeq\<close> and \<open>gt\<close> exactly one holds for any two values, \<open>gt\<close> is \<open>lt\<close> with
  the operands exchanged, \<open>lt\<close> with equality is \<open>lt\<close> or \<open>aeq\<close>, and it is transitive.
  The edge values are ordered \<open>NaN\<close>, then \<open>undefined\<close> and \<open>null\<close> (equivalent), then
  \<open>false\<close>, \<open>true\<close>, the empty string, and then every other value.  Two other values
  compare as numbers when \<open>Number\<close> reads both as numbers; a value that reads as a number
  comes before one that does not; two values that do not are compared by their strings.
\<close>

theorem comparator_tiered_order:
  assumes "convertible a" and "convertible b" and "convertible c"
  shows
  "(ltHelper rt a b False \<or> aeqHelper rt a b \<or> gtHelper rt a b False)
   \<and> \<not> (ltHelper rt a b False \<and> aeqHelper rt a b)
   \<and> \<not> (aeqHelper rt a b \<and> gtHelper rt a b False)
   \<and> \<not> (ltHelper rt a b False \<and> gtHelper rt a b False)
   \<and> gtHelper rt a b e = ltHelper rt b a e
   \<and> ltHelper rt a b True = (ltHelper rt a b False \<or> aeqHelper rt a b)
   \<and> (ltHelper rt a b True \<and> ltHelper rt b c True \<longrightarrow> ltHelper rt a c True)
   \<and> aeqHelper rt Undefined Null
   \<and> ltHelper rt (Num NaN) Undefined False
   \<and> ltHelper rt (Num NaN) Null False
   \<and> ltHelper rt Undefined (Bool False) False
   \<and> ltHelper rt Null (Bool False) False
   \<and> ltHelper rt (Bool False) (Bool True) False
   \<and> ltHelper rt (Bool True) (Str []) False
   \<and> (a \<notin> edge_values \<longrightarrow> ltHelper rt (Str []) a False)
   \<and> (a \<notin> edge_values \<and> b \<notin> edge_values \<longrightarrow>
        (ToNumber rt a \<noteq> NaN \<and> ToNumber rt b \<noteq> NaN \<longrightarrow>
           ltHelper rt a b e =
             (num_lt (ToNumber rt a) (ToNumber rt b) \<or> (ToNumber rt a = ToNumber rt b \<and> e)))
      \<and> (ToNumber rt a \<noteq> NaN \<and> ToNumber rt b = NaN \<longrightarrow>
           ltHelper rt a b e \<and> \<not> ltHelper rt b a e)
      \<and> (ToNumber rt a = NaN \<and> ToNumber rt b = NaN \<longrightarrow>
           ltHelper rt a b e =
             (ToString rt a < ToString rt b \<or> (ToString rt a = ToString rt b \<and> e))))"
proof -
  have total: "ltHelper rt a b False \<or> aeqHelper rt a b \<or> gtHelper rt a b False"
    by (auto simp: ltHelper_strict aeqHelper_key gtHelper_strict)
  have excl: "\<not> (ltHelper rt a b False \<and> aeqHelper rt a b)"
    "\<not> (aeqHelper rt a b \<and> gtHelper rt a b False)"
    "\<not> (ltHelper rt a b False \<and> gtHelper rt a b False)"
    by (auto simp: ltHelper_strict aeqHelper_key gtHelper_strict)
  have weak: "ltHelper rt a b True = (ltHelper rt a b False \<or> aeqHelper rt a b)"
    by (auto simp: ltHelper_strict ltHelper_weak aeqHelper_key)
  have trans: "ltHelper rt a b True \<and> ltHelper rt b c True \<longrightarrow> ltHelper rt a c True"
    by (auto simp: ltHelper_weak)
  have tiers: "aeqHelper rt Undefined Null" "ltHelper rt (Num NaN) Undefined False"
    "ltHelper rt (Num NaN) Null False" "ltHelper rt Undefined (Bool False) False"
    "ltHelper rt Null (Bool False) False" "ltHelper rt (Bool False) (Bool True) False"
    "ltHelper rt (Bool True) (Str []) False"
    by (simp_all add: aeqHelper_def ltHelper_def edge_case_def)
  have others: "a \<notin> edge_values \<longrightarrow> ltHelper rt (Str []) a False"
    by (simp add: edge_values_tier ltHelper_def edge_case_def)
  have coercion: "a \<notin> edge_values \<and> b \<notin> edge_values \<longrightarrow>
        (ToNumber rt a \<noteq> NaN \<and> ToNumber rt b \<noteq> NaN \<longrightarrow>
           ltHelper rt a b e =
             (num_lt (ToNumber rt a) (ToNumber rt b) \<or> (ToNumber rt a = ToNumber rt b \<and> e)))
      \<and> (ToNumber rt a \<noteq> NaN \<and> ToNumber rt b = NaN \<longrightarrow>
           ltHelper rt a b e \<and> \<not> ltHelper rt b a e)
      \<and> (ToNumber rt a = NaN \<and> ToNumber rt b = NaN \<longrightarrow>
           ltHelper rt a b e =
             (ToString rt a < ToString rt b \<or> (ToString rt a = ToString rt b \<and> e)))"
  proof (intro impI conjI; elim conjE)
    assume t: "a \<notin> edge_values" "b \<notin> edge_values"
      and n: "ToNumber rt a \<noteq> NaN" "ToNumber rt b \<noteq> NaN"
    then have k: "cmp_key rt a = (9, num_key (ToNumber rt a), [])"
      "cmp_key rt b = (9, num_key (ToNumber rt b), [])"
      by (simp_all add: edge_values_tier cmp_key_def)
    show "ltHelper rt a b e =
        (num_lt (ToNumber rt a) (ToNumber rt b) \<or> (ToNumber rt a = ToNumber rt b \<and> e))"
      using num_lt_key[OF n] num_key_inj[OF n]
      by (auto simp: ltHelper_key k less_prod_def prod_eq_iff)
  next
    assume t: "a \<notin> edge_values" "b \<notin> edge_values"
      and n: "ToNumber rt a \<noteq> NaN" "ToNumber rt b = NaN"
    then show "ltHelper rt a b e" "\<not> ltHelper rt b a e"
      by (simp_all add: edge_values_tier ltHelper_def)
  next
    assume t: "a \<notin> edge_values" "b \<notin> edge_values"
      and n: "ToNumber rt a = NaN" "ToNumber rt b = NaN"
    then have k: "cmp_key rt a = (9, (3, 0), ToString rt a)"
      "cmp_key rt b = (9, (3, 0), ToString rt b)"
      by (simp_all add: edge_values_tier cmp_key_def)
    show "ltHelper rt a b e =
        (ToString rt a < ToString rt b \<or> (ToString rt a = ToString rt b \<and> e))"
      by (auto simp: ltHelper_key k less_prod_def)
  qed
  show ?thesis
    using total excl gtHelper_lt[of rt a b e] weak trans tiers others coercion
    by blast
qed

text \<open>The order at 5 and \<open>abc\<close>, and the empty string before 5.\<close>

theorem comparator_tiered_order_witness:
  "ltHelper sample_runtime (Num (Fin 5)) (Str ''abc'') False
   \<and> \<not> ltHelper sample_runtime (Str ''abc'') (Num (Fin 5)) False
   \<and> ltHelper sample_runtime (Str []) (Num (Fin 5)) False"
proof -
  have a: "Num (Fin 5) \<notin> edge_values" "Str ''abc'' \<notin> edge_values"
    by (simp_all add: edge_values_def)
  have n: "ToNumber sample_runtime (Num (Fin 5)) \<noteq> NaN"
    "ToNumber sample_runtime (Str ''abc'') = NaN"
    by code_simp+
  have c: "convertible (Num (Fin 5))" "convertible (Str ''abc'')" "convertible Null"
    by simp_all
  show ?thesis
    using comparator_tiered_order[OF c, of sample_runtime False] a n
    by blast
qed

text \<open>
  The claim as written puts \<open>null\<close> before \<open>NaN\<close> and compares by string whenever the
  numeric reading is not available on both sides.  In the code \<open>NaN\<close> has tier 0 and
  comes before \<open>null\<close>, and the number 5 comes before the string \<open>!\<close> although the
  string \<open>5\<close> is the greater string.
\<close>

theorem null_before_NaN_counterexample:
  "\<not> ltHelper sample_runtime Null (Num NaN) False
   \<and> ltHelper sample_runtime (Num NaN) Null False
   \<and> ltHelper sample_runtime (Num (Fin 5)) (Str ''!'') False
   \<and> \<not> (ToString sample_runtime (Num (Fin 5)) < ToString sample_runtime (Str ''!''))"
  by code_simp

section \<open>Collection.get\<close>





lemma val_at_out: "i < 0 \<or> int (length xs) \<le> i \<Longrightarrow> val_at xs i = Undefined"
  by (auto simp: val_at_def js_nth_def)




lemma ensureId_data [simp]: "data (ensureId c) = data c"
  by (simp add: ensureId_def split: option.splits)









section \<open>Insert\<close>

lemma map_of_set_own: "map_of (set_own k v fs) k' = (if k' = k then Some v else map_of fs k')"
  by (induction fs) auto

lemma js_get_set_own:
  "js_get (Obj (set_own k v fs)) k' = (if k' = k then v else js_get (Obj fs) k')"
  by (simp add: map_of_set_own)


lemma dict_slot_set_own:
  "dict_slot (set_own k v m) k' = (if k' = k then Own v else dict_slot m k')"
  by (simp add: dict_slot_def map_of_set_own)

lemma typeof_undefined: "(typeof v = ''undefined'') = (v = Undefined)"
  by (cases v) auto

lemma js_plus1_defined: "js_plus1 rt v \<noteq> Undefined"
  by (simp add: js_plus1_def split: jsval.splits)

lemma set_meta_version_loki:
  "set_meta_version obj = Inr obj' \<Longrightarrow> js_get (Obj obj') ''$loki'' = js_get (Obj obj) ''$loki''"
  by (auto simp: set_meta_version_def map_of_set_own split: jsval.splits option.splits)

lemma insertMeta_loki:
  "insertMeta c now obj = Inr obj' \<Longrightarrow> js_get (Obj obj') ''$loki'' = js_get (Obj obj) ''$loki''"
  by (auto simp: insertMeta_def Let_def map_of_set_own split: jsval.splits option.splits if_splits)

lemma add_try_result:
  assumes "add_try rt c props = Inr (c', r)"
  shows "\<exists>obj. r = Obj obj \<and> js_get r ''$loki'' \<noteq> Undefined"
proof -
  let ?c1 = "c\<lparr>maxId := Num (num_succ (ToNumber rt (maxId c)))\<rparr>"
  let ?c2 = "if maxId ?c1 = Num NaN
             then ?c1\<lparr>maxId := js_plus1 rt (js_get (Obj (last (data ?c1))) ''$loki'')\<rparr>
             else ?c1"
  have nid: "maxId ?c2 \<noteq> Undefined" by (simp add: js_plus1_defined)
  from assms obtain obj where o: "r = Obj obj"
    "(if \<not> disableMeta ?c2 then set_meta_version (set_own ''$loki'' (maxId ?c2) props)
      else Inr (set_own ''$loki'' (maxId ?c2) props)) = Inr obj"
    unfolding add_try_def Let_def
    by (auto split: if_splits sum.splits prod.splits)
  have "js_get (Obj obj) ''$loki'' = maxId ?c2"
    using o(2) set_meta_version_loki[of "set_own ''$loki'' (maxId ?c2) props" obj]
    by (auto simp: map_of_set_own split: if_splits)
  then show ?thesis using o(1) nid by auto
qed

lemma add_result:
  assumes "add rt c doc = Inr (c', r)"
  shows "\<exists>obj. r = Obj obj \<and> js_get r ''$loki'' \<noteq> Undefined"
  using assms add_try_result
  by (auto simp: add_def split: if_splits jsval.splits)

lemma add_synced:
  assumes "typeof (js_get (Obj props) ''$loki'') \<noteq> ''undefined''"
  shows "add rt c (Obj props) = Inl (already_in_collection, c)"
  using assms by (simp add: add_def)

lemma insertOne_synced:
  assumes "typeof (js_get (Obj props) ''$loki'') \<noteq> ''undefined''"
  shows "insertOne rt c now (Obj props) = Inl (already_in_collection, c)"
proof -
  have "typeof (js_get (Obj (set_own ''meta'' m props)) ''$loki'') \<noteq> ''undefined''" for m
    using assms by (simp add: map_of_set_own)
  then show ?thesis using assms
    by (simp add: insertOne_def Let_def add_def)
qed

lemma insertOne_result:
  assumes "insertOne rt c now doc = Inr (c', r)"
  shows "\<exists>obj. r = Obj obj \<and> js_get r ''$loki'' \<noteq> Undefined"
proof -
  from assms obtain props where d: "doc = Obj props"
    by (auto simp: insertOne_def split: if_splits jsval.splits)
  define obj where "obj = (if \<not> disableMeta c \<and> typeof (js_get doc ''meta'') = ''undefined''
                      then set_own ''meta''
                             (Obj [(''revision'', Num (Fin 0)), (''created'', Num (Fin 0))]) props
                      else props)"
  from assms d obtain c1 v where a: "add rt c (Obj obj) = Inr (c1, v)"
    unfolding insertOne_def Let_def obj_def
    by (auto split: if_splits sum.splits prod.splits)
  from add_result[OF a] obtain added where v: "v = Obj added" "js_get v ''$loki'' \<noteq> Undefined"
    by blast
  from assms d a v obtain stamped where s: "insertMeta c1 now added = Inr stamped" "r = Obj stamped"
    unfolding insertOne_def Let_def obj_def
    by (auto split: if_splits sum.splits prod.splits)
  show ?thesis using insertMeta_loki[OF s(1)] v s(2) by simp
qed

text \<open>
  Claim C9.  An object whose \<open>$loki\<close> is defined is refused by \<open>add\<close>, \<open>insertOne\<close>
  and \<open>insert\<close> with the error \<open>Document is already in collection, please use update()\<close>,
  and the collection is left as it was.  The document a successful \<open>insert\<close> or \<open>add\<close>
  returns carries the \<open>$loki\<close> it was given, so inserting it again, into any collection,
  is refused in the same way.
\<close>

theorem insert_refuses_synced_document:
  "(typeof (js_get (Obj props) ''$loki'') \<noteq> ''undefined'' \<longrightarrow>
      add rt c (Obj props) = Inl (already_in_collection, c)
      \<and> insertOne rt c now (Obj props) = Inl (already_in_collection, c)
      \<and> insert rt c now (Obj props) = Inl (already_in_collection, c))
   \<and> (insert rt c now doc = Inr (c', r) \<longrightarrow>
        insert rt c2 now2 r = Inl (already_in_collection, c2))
   \<and> (add rt c doc = Inr (c', r) \<longrightarrow> add rt c2 r = Inl (already_in_collection, c2))"
proof (intro conjI impI)
  assume a: "typeof (js_get (Obj props) ''$loki'') \<noteq> ''undefined''"
  show "add rt c (Obj props) = Inl (already_in_collection, c)" using a by (rule add_synced)
  show "insertOne rt c now (Obj props) = Inl (already_in_collection, c)"
    using a by (rule insertOne_synced)
  then show "insert rt c now (Obj props) = Inl (already_in_collection, c)"
    by (simp add: insert_def)
next
  assume "insert rt c now doc = Inr (c', r)"
  then have "insertOne rt c now doc = Inr (c', r)" by (simp add: insert_def)
  from insertOne_result[OF this]
  obtain obj where "r = Obj obj" "js_get r ''$loki'' \<noteq> Undefined" by blast
  then show "insert rt c2 now2 r = Inl (already_in_collection, c2)"
    using insertOne_synced by (simp add: insert_def typeof_undefined)
next
  assume "add rt c doc = Inr (c', r)"
  from add_result[OF this]
  obtain obj where "r = Obj obj" "js_get r ''$loki'' \<noteq> Undefined" by blast
  then show "add rt c2 r = Inl (already_in_collection, c2)"
    using add_synced by (simp add: typeof_undefined)
qed

text \<open>The stored document \<open>a\<close> is refused by \<open>add\<close>, and the document returned by the
  first insert of the example is refused by a second insert.\<close>

theorem insert_refuses_synced_document_witness:
  "add sample_runtime people0 stored_a = Inl (already_in_collection, people0)
   \<and> insert sample_runtime people1 (Fin 500) stored_a = Inl (already_in_collection, people1)"
proof -
  have t: "typeof (js_get stored_a ''$loki'') \<noteq> ''undefined''" by code_simp
  have i: "insert sample_runtime people0 (Fin 100)
             (Obj [(''name'', Str ''a''), (''age'', Num (Fin 30))]) = Inr (people1, stored_a)"
    by code_simp
  obtain props where p: "stored_a = Obj props" by (simp add: stored_a_def)
  show ?thesis
    using insert_refuses_synced_document[of props sample_runtime people0 "Fin 100"
        "Obj [(''name'', Str ''a''), (''age'', Num (Fin 30))]" people1 stored_a people1 "Fin 500"]
      t i p
    by simp
qed

section \<open>Unique constraints\<close>














section \<open>Resultset.data\<close>

text \<open>
  Claim C6.  While no filter has been applied and \<open>filteredrows\<close> is empty, \<open>data()\<close>
  returns every document of the collection, in order; once a filter has been applied, an
  empty \<open>filteredrows\<close> gives the empty array.
\<close>

theorem resultset_data_unfiltered:
  "(\<not> filterInitialized rs \<and> filteredrows rs = [] \<longrightarrow>
      fst (Resultset_data rs) = map Obj (data (coll rs)))
   \<and> (filterInitialized rs \<and> filteredrows rs = [] \<longrightarrow> fst (Resultset_data rs) = [])"
  by (simp add: Resultset_data_def)

text \<open>On the collection of three documents, before any filter and after a filter that
  matched nothing.\<close>

theorem resultset_data_unfiltered_witness:
  "fst (Resultset_data (chain people3)) = map Obj (data people3)
   \<and> fst (Resultset_data ((chain people3)\<lparr>filterInitialized := True\<rparr>)) = []"
  using resultset_data_unfiltered[of "chain people3"]
    resultset_data_unfiltered[of "(chain people3)\<lparr>filterInitialized := True\<rparr>"]
  by (simp add: chain_def Resultset_def)

section \<open>Resultset.eqJoin\<close>

text \<open>
  Claim C10.  In \<open>eqJoin\<close>, a left document whose join key has no match in the right
  data should reach the map function with \<open>{}\<close> as right argument.  The lookup table is
  an object literal, so the key \<open>constructor\<close> finds the member inherited from
  \<open>Object.prototype\<close>: with right rows that hold no such key, and with no right rows at
  all, the left document is joined with that function instead of \<open>{}\<close>.
\<close>

theorem eqJoin_unmatched_inherited_key:
  "eqJoin_rows sample_runtime (chain keyed1) (JoinArray [Obj [(''k'', Str ''x'')]])
      (KeyField ''k'') (KeyField ''k'') None
     = Inr [Obj [(''left'', Obj (hd (data keyed1))), (''right'', Builtin ''constructor'')]]
   \<and> eqJoin_rows sample_runtime (chain keyed1) (JoinArray [])
      (KeyField ''k'') (KeyField ''k'') None
     = Inr [Obj [(''left'', Obj (hd (data keyed1))), (''right'', Builtin ''constructor'')]]
   \<and> js_get (Obj (hd (data keyed1))) ''k'' = Str ''constructor''"
  by code_simp

text \<open>The joined row is not the row the left document and \<open>{}\<close> would give.\<close>

theorem eqJoin_unmatched_inherited_key_witness:
  "eqJoin_rows sample_runtime (chain keyed1) (JoinArray [Obj [(''k'', Str ''x'')]])
      (KeyField ''k'') (KeyField ''k'') None
     \<noteq> Inr [default_mapFun (Obj (hd (data keyed1))) (Obj [])]"
  using eqJoin_unmatched_inherited_key by (simp add: default_mapFun_def)

section \<open>Resultset.find\<close>

text \<open>
  Claim C7.  \<open>find(q).find(q)\<close> should give the rows of \<open>find(q)\<close>.  On the collection
  of three documents, indexed on \<open>age\<close>, the query \<open>{age: {$in: ['30']}}\<close> is answered
  from the binary index by the comparator, for which the number 30 and the string
  \<open>'30'\<close> are equal, and gives row 0; the second call scans that row with \<open>indexOf\<close>,
  which compares with \<open>===\<close>, and gives no row.
\<close>

theorem find_twice_drops_indexed_row:
  "rows_of (Resultset_find sample_runtime (chain people3)
              (Field ''age'' (OpIn [Str ''30''])) False) = Inr [Some 0]
   \<and> rows_of (find_twice sample_runtime (chain people3)
              (Field ''age'' (OpIn [Str ''30'']))) = Inr []"
  by code_simp

text \<open>The two results differ.\<close>

theorem find_twice_drops_indexed_row_witness:
  "rows_of (find_twice sample_runtime (chain people3) (Field ''age'' (OpIn [Str ''30''])))
     \<noteq> rows_of (Resultset_find sample_runtime (chain people3)
              (Field ''age'' (OpIn [Str ''30''])) False)"
  using find_twice_drops_indexed_row by simp

section \<open>Insert followed by remove\<close>

text \<open>
  Claim C4.  \<open>insert(d)\<close> followed by \<open>remove(d.$loki)\<close> should leave \<open>data\<close> and every
  adaptive binary index as they were.  \<open>insertOne\<close> writes \<open>meta.created\<close> after \<open>add\<close>
  has placed the document in the binary indices, so an index on \<open>meta.created\<close> files
  the new document under 0 and is out of order once the stamp is written; \<open>remove\<close> then
  looks the document up under its stamp, does not find it, and leaves its position in
  the index: the index of one document names positions 1 and 0.
\<close>

theorem insert_remove_stale_index_position:
  "index_values stamped1 = [(''meta.created'', [0])]
   \<and> map doc_id (data stamped2) = [Num (Fin 1), Num (Fin 2)]
   \<and> index_values stamped2 = [(''meta.created'', [1, 0])]
   \<and> map_option (map_sum fst (\<lambda>(c, r). (data c = data stamped1, index_values c)))
        (remove sample_runtime stamped2 (Num (Fin 2)))
       = Some (Inr (True, [(''meta.created'', [1, 0])]))"
  by code_simp

text \<open>The state after the removal does not have the index values of the state before
  the insertion.\<close>

theorem insert_remove_stale_index_position_witness:
  "map_option (map_sum fst (\<lambda>(c, r). (data c = data stamped1, index_values c)))
        (remove sample_runtime stamped2 (Num (Fin 2)))
     \<noteq> Some (Inr (True, index_values stamped1))"
  using insert_remove_stale_index_position by auto

end
